theory Spec2Isabelle
  imports Complex_Main "HOL-Library.Product_Lexorder" "HOL-Library.Multiset" "HOL-Library.AList"
begin

section \<open>Python values\<close>

text \<open>
  The normalizer works on the decoded JSON of the AI interpreter, so its inputs are
  dynamically typed. A value is \<open>None\<close>, an \<open>int\<close>, a \<open>float\<close>, a string, a list or a
  dict (an association list read with \<open>map_of\<close>). An \<open>int\<close> is exact and unbounded
  (\<open>PInt\<close>). A \<open>float\<close> is taken as a mathematical real (\<open>PNum\<close>): rounding, \<open>inf\<close>
  and \<open>nan\<close> are outside this model. Python's \<open>bool\<close> is a subtype of \<open>int\<close> and
  behaves as 1 and 0 in every operation used below, so \<open>True\<close> and \<open>False\<close> are
  \<open>PInt 1\<close> and \<open>PInt 0\<close>.
\<close>

text \<open>
  The exceptions raised below: built-in ones, and \<open>HTTPStatusError\<close>, which
  \<open>raise_for_status\<close> of the HTTP client library raises on an error response.
\<close>

datatype py_error =
  TypeError | ValueError | OverflowError | AttributeError | ZeroDivisionError | KeyError
  | HTTPStatusError

datatype pyval =
  PNone
  | PInt int
  | PNum real
  | PStr string
  | PList "pyval list"
  | PDict "(string \<times> pyval) list"

text \<open>Truth value of an object, as tested by \<open>if x\<close>, \<open>not x\<close> and \<open>x or y\<close>.\<close>

definition truthy :: "pyval \<Rightarrow> bool" where
  "truthy v =
     (case v of
        PNone \<Rightarrow> False
      | PInt n \<Rightarrow> n \<noteq> 0
      | PNum r \<Rightarrow> r \<noteq> 0
      | PStr s \<Rightarrow> s \<noteq> []
      | PList xs \<Rightarrow> xs \<noteq> []
      | PDict d \<Rightarrow> d \<noteq> [])"

text \<open>\<open>d.get(k, default)\<close>; \<open>d.get(k)\<close> is \<open>dict_get d k PNone\<close>.\<close>

definition dict_get :: "(string \<times> pyval) list \<Rightarrow> string \<Rightarrow> pyval \<Rightarrow> pyval" where
  "dict_get d k dflt = (case map_of d k of None \<Rightarrow> dflt | Some v \<Rightarrow> v)"

text \<open>
  The conversion of an \<open>int\<close> to a \<open>float\<close>, explicit in \<open>float(n)\<close> and implicit
  when an \<open>int\<close> meets a \<open>float\<close> in arithmetic. The largest float is
  \<open>2^1024 - 2^971\<close>; an \<open>int\<close> of magnitude \<open>2^1024 - 2^970\<close> or more would round
  beyond it, and its conversion raises \<open>OverflowError\<close>.
\<close>

definition float_overflow_bound :: real where
  "float_overflow_bound = 2 ^ 1024 - 2 ^ 970"

definition int_to_float :: "int \<Rightarrow> py_error + real" where
  "int_to_float n =
     (if float_overflow_bound \<le> \<bar>real_of_int n\<bar> then Inl OverflowError else Inr (real_of_int n))"

text \<open>
  \<open>float(v)\<close>. Which strings denote a number is decided by the interpreter's float
  grammar, taken here as the parameter \<open>str_float\<close>.
\<close>

definition py_float :: "(string \<Rightarrow> real option) \<Rightarrow> pyval \<Rightarrow> py_error + real" where
  "py_float str_float v =
     (case v of
        PNone \<Rightarrow> Inl TypeError
      | PInt n \<Rightarrow> int_to_float n
      | PNum r \<Rightarrow> Inr r
      | PStr s \<Rightarrow> (case str_float s of None \<Rightarrow> Inl ValueError | Some r \<Rightarrow> Inr r)
      | PList xs \<Rightarrow> Inl TypeError
      | PDict d \<Rightarrow> Inl TypeError)"

text \<open>
  \<open>a / b\<close> (true division), defined on two numbers; the result is a \<open>float\<close>.
  Two \<open>int\<close>s are divided exactly and the quotient is rounded: a zero divisor raises
  \<open>ZeroDivisionError\<close>, a quotient beyond the floats \<open>OverflowError\<close>. When one operand
  is a \<open>float\<close> the other is converted first, which may raise \<open>OverflowError\<close>, and
  then the divisor is tested.
\<close>

definition py_truediv :: "pyval \<Rightarrow> pyval \<Rightarrow> py_error + real" where
  "py_truediv a b =
     (case a of
        PInt x \<Rightarrow>
          (case b of
             PInt y \<Rightarrow>
               if y = 0 then Inl ZeroDivisionError
               else if float_overflow_bound \<le> \<bar>real_of_int x / real_of_int y\<bar>
               then Inl OverflowError
               else Inr (real_of_int x / real_of_int y)
           | PNum y \<Rightarrow>
               (case int_to_float x of
                  Inl e \<Rightarrow> Inl e
                | Inr xf \<Rightarrow> if y = 0 then Inl ZeroDivisionError else Inr (xf / y))
           | _ \<Rightarrow> Inl TypeError)
      | PNum x \<Rightarrow>
          (case b of
             PInt y \<Rightarrow>
               (case int_to_float y of
                  Inl e \<Rightarrow> Inl e
                | Inr yf \<Rightarrow> if yf = 0 then Inl ZeroDivisionError else Inr (x / yf))
           | PNum y \<Rightarrow> if y = 0 then Inl ZeroDivisionError else Inr (x / y)
           | _ \<Rightarrow> Inl TypeError)
      | _ \<Rightarrow> Inl TypeError)"

text \<open>\<open>int(r)\<close> on a float truncates towards zero.\<close>

definition py_trunc :: "real \<Rightarrow> int" where
  "py_trunc r = (if 0 \<le> r then \<lfloor>r\<rfloor> else \<lceil>r\<rceil>)"

section \<open>Normalizer (app/tasks/processing.py)\<close>

record BuildingData =
  name :: pyval
  height_meters :: pyval
  floor_count :: pyval
  floor_height_meters :: pyval
  roof_type :: pyval
  footprint :: pyval
  specifications :: "(string \<times> pyval) list"

definition CONFIDENCE_THRESHOLD :: real where
  "CONFIDENCE_THRESHOLD = 0.3"

text \<open>\<open>ab.get("_confidence", ab.get("confidence", overall_confidence))\<close>\<close>

definition effective_confidence :: "pyval \<Rightarrow> (string \<times> pyval) list \<Rightarrow> pyval" where
  "effective_confidence overall_confidence ab =
     dict_get ab ''_confidence'' (dict_get ab ''confidence'' overall_confidence)"

text \<open>
  \<open>try: confidence = float(confidence)\<close> with
  \<open>except (TypeError, ValueError): confidence = 0.0\<close>; any other exception propagates.
\<close>

definition confidence_of :: "(string \<Rightarrow> real option) \<Rightarrow> pyval \<Rightarrow> py_error + real" where
  "confidence_of str_float v =
     (case py_float str_float v of
        Inr c \<Rightarrow> Inr c
      | Inl e \<Rightarrow> if e = TypeError \<or> e = ValueError then Inr 0 else Inl e)"

text \<open>\<open>ab.get("floor_count") or max(1, int(height / 3.0))\<close>; the right operand is
  evaluated only when the left one is falsy.\<close>

definition floors_of :: "(string \<times> pyval) list \<Rightarrow> pyval \<Rightarrow> py_error + pyval" where
  "floors_of ab height =
     (let fc = dict_get ab ''floor_count'' PNone in
      if truthy fc then Inr fc
      else (case py_truediv height (PNum 3) of
              Inl e \<Rightarrow> Inl e
            | Inr q \<Rightarrow> Inr (PInt (max 1 (py_trunc q)))))"

text \<open>\<open>ab.get("floor_height_meters") or (height / floors)\<close>\<close>

definition floor_height_of :: "(string \<times> pyval) list \<Rightarrow> pyval \<Rightarrow> pyval \<Rightarrow> py_error + pyval" where
  "floor_height_of ab height floors =
     (let fh = dict_get ab ''floor_height_meters'' PNone in
      if truthy fh then Inr fh
      else (case py_truediv height floors of
              Inl e \<Rightarrow> Inl e
            | Inr q \<Rightarrow> Inr (PNum q)))"

text \<open>
  The rectangle synthesized when no extracted polygon exists at the entry's index:
  \<open>offset_x = i * (width + 10)\<close>, then the five corner points. Only \<open>width\<close> enters
  arithmetic; \<open>depth\<close> is stored as it is. With an \<open>int\<close> width every sum and product
  is an exact \<open>int\<close>. With a \<open>float\<close> width the index is converted to a \<open>float\<close>
  for the product. Any other width makes \<open>width + 10\<close> raise \<open>TypeError\<close>.
\<close>

definition synth_footprint :: "nat \<Rightarrow> pyval \<Rightarrow> pyval \<Rightarrow> py_error + pyval" where
  "synth_footprint i width depth =
     (case width of
        PInt w \<Rightarrow>
          (let offset_x = int i * (w + 10) in
           Inr (PList [PList [PInt offset_x, PInt 0],
                       PList [PInt (offset_x + w), PInt 0],
                       PList [PInt (offset_x + w), depth],
                       PList [PInt offset_x, depth],
                       PList [PInt offset_x, PInt 0]]))
      | PNum w \<Rightarrow>
          (case int_to_float (int i) of
             Inl e \<Rightarrow> Inl e
           | Inr fi \<Rightarrow>
               (let offset_x = fi * (w + 10) in
                Inr (PList [PList [PNum offset_x, PInt 0],
                            PList [PNum (offset_x + w), PInt 0],
                            PList [PNum (offset_x + w), depth],
                            PList [PNum offset_x, depth],
                            PList [PNum offset_x, PInt 0]])))
      | _ \<Rightarrow> Inl TypeError)"

definition footprint_of :: "pyval list \<Rightarrow> nat \<Rightarrow> pyval \<Rightarrow> pyval \<Rightarrow> py_error + pyval" where
  "footprint_of coordinates i width depth =
     (if coordinates \<noteq> [] \<and> i < length coordinates then Inr (coordinates ! i)
      else synth_footprint i width depth)"

text \<open>
  \<open>f"Building {chr(65 + i)}"\<close>. \<open>chr\<close> raises \<open>ValueError\<close> beyond the last code
  point, \<open>0x10FFFF\<close>. Characters are single bytes here, so the letter is rendered
  faithfully for the ASCII range only.
\<close>

definition default_name :: "nat \<Rightarrow> py_error + pyval" where
  "default_name i =
     (if 65 + i \<le> 1114111 then Inr (PStr (''Building '' @ [char_of (65 + i)]))
      else Inl ValueError)"

text \<open>
  One iteration of the loop over \<open>enumerate(ai_buildings)\<close>. \<open>Inr None\<close> is the
  \<open>continue\<close> of a dropped entry, \<open>Inr (Some b)\<close> the record appended to
  \<open>buildings\<close>, \<open>Inl e\<close> an exception leaving the function. An entry that is not a
  dict has no \<open>get\<close>.
\<close>

definition normalize_entry ::
  "(string \<Rightarrow> real option) \<Rightarrow> pyval list \<Rightarrow> pyval \<Rightarrow> nat \<Rightarrow> pyval \<Rightarrow> py_error + BuildingData option"
where
  "normalize_entry str_float coordinates overall_confidence i entry =
     (case entry of
        PDict ab \<Rightarrow>
          (case confidence_of str_float (effective_confidence overall_confidence ab) of
             Inl e \<Rightarrow> Inl e
           | Inr confidence \<Rightarrow>
               if confidence < CONFIDENCE_THRESHOLD then Inr None
               else
                 (let width = dict_get ab ''width'' (PInt 20);
                      depth = dict_get ab ''depth'' (PInt 15);
                      hm = dict_get ab ''height_meters'' PNone;
                      height = (if truthy hm then hm else PNum 10)
                  in case floors_of ab height of
                       Inl e \<Rightarrow> Inl e
                     | Inr floors \<Rightarrow>
                         (case floor_height_of ab height floors of
                            Inl e \<Rightarrow> Inl e
                          | Inr floor_height \<Rightarrow>
                              (case footprint_of coordinates i width depth of
                                 Inl e \<Rightarrow> Inl e
                               | Inr fp \<Rightarrow>
                                  (case default_name i of
                                     Inl e \<Rightarrow> Inl e
                                   | Inr dflt_name \<Rightarrow>
                                   Inr (Some
                                     \<lparr>name = dict_get ab ''name'' dflt_name,
                                      height_meters = height,
                                      floor_count = floors,
                                      floor_height_meters = floor_height,
                                      roof_type = dict_get ab ''roof_type'' (PStr ''flat''),
                                      footprint = fp,
                                      specifications =
                                        [(''total_area_sqm'',
                                            (let t = dict_get ab ''total_area_sqm'' PNone in
                                             if truthy t then t
                                             else dict_get ab ''footprint_area_sqm'' PNone)),
                                         (''residential_units'', dict_get ab ''units'' PNone),
                                         (''use_type'', dict_get ab ''use_type'' PNone),
                                         (''ai_confidence'', PNum confidence)]\<rparr>))))))
      | _ \<Rightarrow> Inl AttributeError)"

fun normalize_loop ::
  "(string \<Rightarrow> real option) \<Rightarrow> pyval list \<Rightarrow> pyval \<Rightarrow> nat \<Rightarrow> pyval list \<Rightarrow> BuildingData list
     \<Rightarrow> py_error + BuildingData list"
where
  "normalize_loop str_float coordinates overall i [] buildings = Inr buildings"
| "normalize_loop str_float coordinates overall i (entry # rest) buildings =
     (case normalize_entry str_float coordinates overall i entry of
        Inl e \<Rightarrow> Inl e
      | Inr None \<Rightarrow> normalize_loop str_float coordinates overall (Suc i) rest buildings
      | Inr (Some b) \<Rightarrow>
          normalize_loop str_float coordinates overall (Suc i) rest (buildings @ [b]))"

text \<open>The records built from extracted coordinates when there is no AI building.\<close>

fun coordinate_buildings ::
  "nat \<Rightarrow> pyval list \<Rightarrow> BuildingData list \<Rightarrow> py_error + BuildingData list"
where
  "coordinate_buildings i [] buildings = Inr buildings"
| "coordinate_buildings i (coords # rest) buildings =
     (case default_name i of
        Inl e \<Rightarrow> Inl e
      | Inr nm \<Rightarrow>
          coordinate_buildings (Suc i) rest
            (buildings @
               [\<lparr>name = nm,
                 height_meters = PNum 10,
                 floor_count = PInt 3,
                 floor_height_meters = PNum 3.33,
                 roof_type = PStr ''flat'',
                 footprint = coords,
                 specifications = []\<rparr>]))"

definition default_building :: BuildingData where
  "default_building =
     \<lparr>name = PStr ''Building A'',
      height_meters = PNum 10,
      floor_count = PInt 3,
      floor_height_meters = PNum 3.33,
      roof_type = PStr ''flat'',
      footprint = PList [PList [PInt 0, PInt 0], PList [PInt 20, PInt 0],
                         PList [PInt 20, PInt 15], PList [PInt 0, PInt 15],
                         PList [PInt 0, PInt 0]],
      specifications = []\<rparr>"

text \<open>
  The one-element list built from a floor-plan style interpretation
  (\<open>building_dimensions\<close> present and no usable \<open>buildings\<close> list).
\<close>

definition reshape_floor_plan :: "(string \<times> pyval) list \<Rightarrow> pyval \<Rightarrow> py_error + pyval" where
  "reshape_floor_plan ir overall_confidence =
     (case dict_get ir ''building_dimensions'' PNone of
        PDict dims \<Rightarrow>
          Inr (PList [PDict
            [(''name'', PStr ''Building A''),
             (''height_meters'', dict_get ir ''total_height_meters'' PNone),
             (''floor_count'', dict_get ir ''floor_count'' PNone),
             (''floor_height_meters'', dict_get ir ''floor_height_meters'' PNone),
             (''footprint_area_sqm'', dict_get dims ''estimated_area_sqm'' PNone),
             (''width'', dict_get dims ''width_meters'' (PInt 20)),
             (''depth'', dict_get dims ''depth_meters'' (PInt 15)),
             (''roof_type'', dict_get ir ''roof_type'' (PStr ''flat'')),
             (''_confidence'', overall_confidence)]])
      | _ \<Rightarrow> Inl AttributeError)"

definition ai_buildings_of :: "pyval \<Rightarrow> pyval \<Rightarrow> py_error + pyval" where
  "ai_buildings_of interpretation_result overall_confidence =
     (case interpretation_result of
        PDict ir \<Rightarrow>
          (let ai_buildings = dict_get ir ''buildings'' (PList []) in
           if \<not> truthy ai_buildings \<and> map_of ir ''building_dimensions'' \<noteq> None
           then reshape_floor_plan ir overall_confidence
           else Inr ai_buildings)
      | _ \<Rightarrow> Inr (PList []))"

text \<open>What \<open>enumerate(v)\<close> runs over: \<open>None\<close> and numbers are not iterable.\<close>

definition iterate :: "pyval \<Rightarrow> py_error + pyval list" where
  "iterate v =
     (case v of
        PList xs \<Rightarrow> Inr xs
      | PStr s \<Rightarrow> Inr (map (\<lambda>c. PStr [c]) s)
      | PDict d \<Rightarrow> Inr (map (\<lambda>kv. PStr (fst kv)) d)
      | _ \<Rightarrow> Inl TypeError)"

text \<open>
  \<open>_normalize_extraction_data\<close>; \<open>coordinates\<close> is
  \<open>extraction_result.to_dict()["coordinates"]\<close>.
\<close>

definition normalize_extraction_data ::
  "(string \<Rightarrow> real option) \<Rightarrow> pyval list \<Rightarrow> pyval \<Rightarrow> py_error + BuildingData list"
where
  "normalize_extraction_data str_float coordinates interpretation_result =
     (let overall_confidence =
            (case interpretation_result of
               PDict ir \<Rightarrow> dict_get ir ''confidence'' (PNum 0)
             | _ \<Rightarrow> PNum 0)
      in case ai_buildings_of interpretation_result overall_confidence of
           Inl e \<Rightarrow> Inl e
         | Inr ai_buildings \<Rightarrow>
             if truthy ai_buildings then
               (case iterate ai_buildings of
                  Inl e \<Rightarrow> Inl e
                | Inr entries \<Rightarrow>
                    normalize_loop str_float coordinates overall_confidence 0 entries [])
             else if coordinates \<noteq> [] then coordinate_buildings 0 coordinates []
             else Inr [default_building])"

text \<open>The records the iterations over \<open>es\<close> append, starting at index \<open>i\<close>.\<close>

fun contributions ::
  "(string \<Rightarrow> real option) \<Rightarrow> pyval list \<Rightarrow> pyval \<Rightarrow> nat \<Rightarrow> pyval list \<Rightarrow> BuildingData list"
where
  "contributions sf coords ov i [] = []"
| "contributions sf coords ov i (e # es) =
     (case normalize_entry sf coords ov i e of
        Inr (Some b) \<Rightarrow> b # contributions sf coords ov (Suc i) es
      | _ \<Rightarrow> contributions sf coords ov (Suc i) es)"

text \<open>
  Predicates used to state properties of the normalizer's input and output. The value
  of a number is its value as a real. A number lies in the range of the floats when its
  magnitude is below \<open>float_overflow_bound\<close>, which every \<open>float\<close> does.
\<close>

definition num_val :: "pyval \<Rightarrow> real option" where
  "num_val v = (case v of PInt n \<Rightarrow> Some (real_of_int n) | PNum r \<Rightarrow> Some r | _ \<Rightarrow> None)"

definition is_num :: "pyval \<Rightarrow> bool" where
  "is_num v = (case v of PInt n \<Rightarrow> True | PNum r \<Rightarrow> True | _ \<Rightarrow> False)"

definition in_float_range :: "pyval \<Rightarrow> bool" where
  "in_float_range v =
     (case num_val v of None \<Rightarrow> False | Some r \<Rightarrow> \<bar>r\<bar> < float_overflow_bound)"

definition numeric_or_absent :: "(string \<times> pyval) list \<Rightarrow> string \<Rightarrow> bool" where
  "numeric_or_absent ab k = (case map_of ab k of None \<Rightarrow> True | Some v \<Rightarrow> is_num v)"

definition float_range_null_or_absent :: "(string \<times> pyval) list \<Rightarrow> string \<Rightarrow> bool" where
  "float_range_null_or_absent ab k =
     (case map_of ab k of None \<Rightarrow> True | Some v \<Rightarrow> in_float_range v \<or> v = PNone)"

text \<open>
  A closed polygon: a list of at least four two-element points whose first point and
  last point are the same value.
\<close>

definition is_xy_pair :: "pyval \<Rightarrow> bool" where
  "is_xy_pair p = (case p of PList xs \<Rightarrow> length xs = 2 | _ \<Rightarrow> False)"

definition closed_polygon :: "pyval \<Rightarrow> bool" where
  "closed_polygon fp =
     (case fp of
        PList pts \<Rightarrow> 4 \<le> length pts \<and> list_all is_xy_pair pts \<and> hd pts = last pts
      | _ \<Rightarrow> False)"

text \<open>
  The coordinates of a point \<open>[x, y]\<close> of two numbers, and the vertices of a footprint
  all of whose points are such pairs.
\<close>

fun xy_of :: "pyval \<Rightarrow> (real \<times> real) option" where
  "xy_of (PList [a, b]) =
     (case num_val a of
        None \<Rightarrow> None
      | Some x \<Rightarrow> (case num_val b of None \<Rightarrow> None | Some y \<Rightarrow> Some (x, y)))"
| "xy_of v = None"

definition polygon_xy :: "pyval \<Rightarrow> (real \<times> real) list option" where
  "polygon_xy fp = (case fp of PList pts \<Rightarrow> those (map xy_of pts) | _ \<Rightarrow> None)"

text \<open>
  The region covered by an axis-parallel rectangular footprint: the points between
  the least and greatest coordinates of its vertices.
\<close>

definition footprint_points :: "pyval \<Rightarrow> (real \<times> real) list" where
  "footprint_points fp = (case fp of PList pts \<Rightarrow> List.map_filter xy_of pts | _ \<Rightarrow> [])"

definition in_rect :: "pyval \<Rightarrow> real \<times> real \<Rightarrow> bool" where
  "in_rect fp p =
     (let pts = footprint_points fp; xs = map fst pts; ys = map snd pts
      in pts \<noteq> [] \<and> Min (set xs) \<le> fst p \<and> fst p \<le> Max (set xs)
                   \<and> Min (set ys) \<le> snd p \<and> snd p \<le> Max (set ys))"

section \<open>Extractors (app/processing/extractors/document_extractor.py)\<close>

text \<open>
  The per-page record of \<open>_classify_pdf_page\<close>; the fields are the dict keys
  \<open>page\<close>, \<open>type\<close>, \<open>confidence\<close>, \<open>line_count\<close>, \<open>text_density\<close> and
  \<open>edge_density\<close>.
\<close>

record classification =
  cls_page :: nat
  cls_type :: string
  cls_confidence :: real
  cls_line_count :: nat
  cls_text_density :: real
  cls_edge_density :: real

record ExtractionResult =
  text_content :: string
  dimensions :: "pyval list"
  coordinates :: "pyval list"
  metadata :: "(string \<times> pyval) list"
  images :: "string list"
  page_classifications :: "classification list"
  confidence :: real
  errors :: "string list"

definition empty_result :: ExtractionResult where
  "empty_result =
     \<lparr>text_content = [], dimensions = [], coordinates = [], metadata = [], images = [],
      page_classifications = [], confidence = 0, errors = []\<rparr>"

subsection \<open>PDF\<close>

text \<open>\<open>type_priority.get(t, 3)\<close>\<close>

definition type_priority :: "(string \<times> nat) list" where
  "type_priority = [(''floor_plan'', 0), (''elevation'', 1), (''schedule'', 2), (''text'', 3)]"

definition type_priority_get :: "string \<Rightarrow> nat" where
  "type_priority_get t = (case map_of type_priority t of None \<Rightarrow> 3 | Some p \<Rightarrow> p)"

text \<open>The sort key \<open>(type_priority.get(x[1]["type"], 3), -x[1]["confidence"])\<close>; Python
  compares tuples lexicographically, as the order on pairs used here does.\<close>

definition cls_key :: "classification \<Rightarrow> nat \<times> real" where
  "cls_key c = (type_priority_get (cls_type c), - cls_confidence c)"

definition page_sort_key :: "nat \<times> classification \<Rightarrow> nat \<times> real" where
  "page_sort_key x = cls_key (snd x)"

text \<open>
  The loop over the pages: page \<open>n\<close> contributes its text, its rendered image and its
  classification. A page is given as its text and its image bytes; the classifier
  (OpenCV heuristics) is the parameter \<open>classify\<close>, called as in the source with the
  image, the text and the page number.
\<close>

fun pdf_pages ::
  "(string \<Rightarrow> string \<Rightarrow> nat \<Rightarrow> classification) \<Rightarrow> nat \<Rightarrow> (string \<times> string) list
     \<Rightarrow> ExtractionResult \<Rightarrow> ExtractionResult"
where
  "pdf_pages classify page_num [] result = result"
| "pdf_pages classify page_num ((page_text, image_bytes) # rest) result =
     pdf_pages classify (Suc page_num) rest
       (result\<lparr>text_content := text_content result @ page_text @ [CHR 0x0A],
               images := images result @ [image_bytes],
               page_classifications :=
                 page_classifications result @ [classify image_bytes page_text page_num]\<rparr>)"

text \<open>
  The summary \<open>type_counts\<close>: \<open>type_counts[t] = type_counts.get(t, 0) + 1\<close> for
  each classification in turn. An assignment to a dict key keeps the key's place or
  appends the key, as \<open>AList.update\<close> does.
\<close>

fun count_types :: "classification list \<Rightarrow> (string \<times> nat) list \<Rightarrow> (string \<times> nat) list" where
  "count_types [] type_counts = type_counts"
| "count_types (c # rest) type_counts =
     count_types rest
       (AList.update (cls_type c)
          ((case map_of type_counts (cls_type c) of None \<Rightarrow> 0 | Some n \<Rightarrow> n) + 1)
          type_counts)"

text \<open>
  \<open>extract_pdf\<close>. \<open>Inl msg\<close> is a document that cannot be opened: the exception is
  caught and recorded. \<open>Inr (doc_metadata, pages)\<close> is an opened document. \<open>sorted\<close>
  is stable, as \<open>sort_key\<close> is. The log line that ends the function reads
  \<open>len(doc)\<close> after \<open>doc.close()\<close>; whether the PDF library raises there is not
  modelled: the exception would be caught and add an entry to \<open>errors\<close>, with every
  other field already stored.
\<close>

definition extract_pdf ::
  "(string \<Rightarrow> string \<Rightarrow> nat \<Rightarrow> classification)
     \<Rightarrow> string + ((string \<times> pyval) list \<times> (string \<times> string) list) \<Rightarrow> ExtractionResult"
where
  "extract_pdf classify doc =
     (case doc of
        Inl msg \<Rightarrow> empty_result\<lparr>errors := [''PDF extraction error: '' @ msg]\<rparr>
      | Inr (doc_metadata, pages) \<Rightarrow>
          (let result = pdf_pages classify 0 pages
                 (empty_result
                    \<lparr>metadata :=
                       AList.update ''page_count'' (PInt (int (length pages))) doc_metadata\<rparr>);
               sorted_pages = sort_key page_sort_key (enumerate 0 (page_classifications result));
               sorted_images = map (\<lambda>x. images result ! fst x) sorted_pages;
               sorted_classifications = map snd sorted_pages;
               type_counts = count_types sorted_classifications []
           in result\<lparr>images := sorted_images,
                     page_classifications := sorted_classifications,
                     metadata :=
                       AList.update ''page_types''
                         (PDict (map (\<lambda>kv. (fst kv, PInt (int (snd kv)))) type_counts))
                         (metadata result),
                     confidence := 0.7\<rparr>))"

subsection \<open>CAD\<close>

text \<open>
  A modelspace entity as far as \<open>extract_cad\<close> reads it. The source takes the
  branch of \<open>entity.get_points()\<close> for the two DXF types \<open>LWPOLYLINE\<close> and
  \<open>POLYLINE\<close>. An \<open>LWPOLYLINE\<close> entity has that method: \<open>LWPOLYLINE pts flag layer\<close>
  is such an entity, \<open>pts\<close> what \<open>get_points()\<close> yields and \<open>flag\<close> its closed flag.
  The old-style \<open>POLYLINE\<close> entity keeps its points as vertex sub-entities and has no
  \<open>get_points\<close>, so the call raises \<open>AttributeError\<close>.
\<close>

datatype entity =
  LINE "real \<times> real" "real \<times> real" string
  | LWPOLYLINE "(real \<times> real) list" bool string
  | POLYLINE "(real \<times> real) list" bool string
  | DIMENSION pyval pyval
  | OTHER string

record cad_lists =
  cad_lines :: "((real \<times> real) \<times> (real \<times> real) \<times> string) list"
  cad_polylines :: "(pyval \<times> string) list"
  cad_dimensions :: "(pyval \<times> pyval) list"

text \<open>\<open>[[p[0], p[1]] for p in entity.get_points()]\<close>\<close>

definition points_list :: "(real \<times> real) list \<Rightarrow> pyval" where
  "points_list pts = PList (map (\<lambda>p. PList [PNum (fst p), PNum (snd p)]) pts)"

text \<open>The first loop, over the modelspace; it ends at the first exception.\<close>

fun collect_entities :: "entity list \<Rightarrow> cad_lists \<Rightarrow> py_error + cad_lists" where
  "collect_entities [] acc = Inr acc"
| "collect_entities (LINE s e layer # rest) acc =
     collect_entities rest (acc\<lparr>cad_lines := cad_lines acc @ [(s, e, layer)]\<rparr>)"
| "collect_entities (LWPOLYLINE pts flag layer # rest) acc =
     collect_entities rest (acc\<lparr>cad_polylines := cad_polylines acc @ [(points_list pts, layer)]\<rparr>)"
| "collect_entities (POLYLINE pts flag layer # rest) acc = Inl AttributeError"
| "collect_entities (DIMENSION v t # rest) acc =
     collect_entities rest (acc\<lparr>cad_dimensions := cad_dimensions acc @ [(v, t)]\<rparr>)"
| "collect_entities (OTHER t # rest) acc = collect_entities rest acc"

text \<open>\<open>len(poly["points"])\<close>\<close>

definition py_len :: "pyval \<Rightarrow> nat" where
  "py_len v = (case v of PList xs \<Rightarrow> length xs | PStr s \<Rightarrow> length s | PDict d \<Rightarrow> length d | _ \<Rightarrow> 0)"

text \<open>The second loop: polylines to potential building footprints.\<close>

fun footprint_candidates :: "(pyval \<times> string) list \<Rightarrow> pyval list \<Rightarrow> pyval list" where
  "footprint_candidates [] coords = coords"
| "footprint_candidates (poly # rest) coords =
     footprint_candidates rest (if 3 \<le> py_len (fst poly) then coords @ [fst poly] else coords)"

text \<open>\<open>str(e)\<close> for the exception of the missing method.\<close>

definition no_get_points :: string where
  "no_get_points =
     [CHR 0x27] @ ''Polyline'' @ [CHR 0x27] @ '' object has no attribute '' @
     [CHR 0x27] @ ''get_points'' @ [CHR 0x27]"

text \<open>
  \<open>extract_cad\<close> on a document that was read (\<open>Inr\<close>: its layer names, its
  \<open>$INSUNITS\<close> header and its modelspace) or could not be read (\<open>Inl msg\<close>). The
  whole body is inside one \<open>try\<close>: an exception raised in the entity loop is caught
  and recorded in \<open>errors\<close>, and the result keeps what was stored before the loop, the
  layers and the units; the entity counts, the coordinates, the dimensions and the
  confidence are assigned after the loop only.
\<close>

definition extract_cad :: "string + (string list \<times> pyval \<times> entity list) \<Rightarrow> ExtractionResult" where
  "extract_cad doc =
     (case doc of
        Inl msg \<Rightarrow> empty_result\<lparr>errors := [''CAD extraction error: '' @ msg]\<rparr>
      | Inr (layers, units, msp) \<Rightarrow>
          (case collect_entities msp \<lparr>cad_lines = [], cad_polylines = [], cad_dimensions = []\<rparr> of
             Inl e \<Rightarrow>
               empty_result
                 \<lparr>metadata := [(''layers'', PList (map PStr layers)), (''units'', units)],
                  errors := [''CAD extraction error: '' @ no_get_points]\<rparr>
           | Inr found \<Rightarrow>
               empty_result
                 \<lparr>dimensions :=
                    map (\<lambda>d. PDict [(''value'', fst d), (''text'', snd d)]) (cad_dimensions found),
                  coordinates := footprint_candidates (cad_polylines found) [],
                  metadata :=
                    [(''layers'', PList (map PStr layers)),
                     (''units'', units),
                     (''entity_counts'',
                        PDict [(''lines'', PInt (int (length (cad_lines found)))),
                               (''polylines'', PInt (int (length (cad_polylines found)))),
                               (''dimensions'', PInt (int (length (cad_dimensions found))))])],
                  confidence := 0.85\<rparr>))"

text \<open>A polyline is closed when its flag says so or its last point repeats its first.\<close>

definition polyline_closed :: "(real \<times> real) list \<Rightarrow> bool \<Rightarrow> bool" where
  "polyline_closed pts flag = (flag \<or> (pts \<noteq> [] \<and> hd pts = last pts))"

text \<open>
  The point lists of the \<open>LWPOLYLINE\<close> entities of a modelspace, in order, and whether
  an entity is an old-style \<open>POLYLINE\<close>.
\<close>

fun polyline_points :: "entity list \<Rightarrow> (real \<times> real) list list" where
  "polyline_points [] = []"
| "polyline_points (LWPOLYLINE pts flag layer # rest) = pts # polyline_points rest"
| "polyline_points (e # rest) = polyline_points rest"

fun old_style_polyline :: "entity \<Rightarrow> bool" where
  "old_style_polyline (POLYLINE pts flag layer) = True"
| "old_style_polyline e = False"

text \<open>
  What the pages yield one by one, before the reordering: the image of page \<open>n\<close> and
  its classification. \<open>page_order c d\<close> says that \<open>c\<close> may stand before \<open>d\<close>:
  lower type priority, or the same priority and a confidence at least as high.
\<close>

definition page_images_of :: "(string \<times> string) list \<Rightarrow> string list" where
  "page_images_of pages = map snd pages"

definition page_classifications_of ::
  "(string \<Rightarrow> string \<Rightarrow> nat \<Rightarrow> classification) \<Rightarrow> (string \<times> string) list \<Rightarrow> classification list"
where
  "page_classifications_of classify pages =
     map (\<lambda>x. classify (snd (snd x)) (fst (snd x)) (fst x)) (enumerate 0 pages)"

definition page_order :: "classification \<Rightarrow> classification \<Rightarrow> bool" where
  "page_order c d =
     (type_priority_get (cls_type c) < type_priority_get (cls_type d) \<or>
      (type_priority_get (cls_type c) = type_priority_get (cls_type d) \<and>
       cls_confidence d \<le> cls_confidence c))"

section \<open>Building geometry generator (app/generation/geometry/building_generator.py)\<close>

text \<open>
  A footprint is the array of its \<open>[x, y]\<close> rows. Coordinates are reals. A mesh built
  by \<open>trimesh.Trimesh(vertices, faces)\<close> is its vertex and face arrays; a box built by
  \<open>trimesh.creation.box\<close> and then rotated about the z-axis and translated is kept as
  its extents, the rotation and the translation. The rotation by
  \<open>arctan2(edge_dir[1], edge_dir[0])\<close> is recorded as the cosine and sine of that
  angle, which are the two components of the unit vector \<open>edge_dir\<close>.
\<close>

type_synonym point2 = "real \<times> real"
type_synonym point3 = "real \<times> real \<times> real"

record mesh =
  vertices :: "point3 list"
  faces :: "(nat \<times> nat \<times> nat) list"

record placed_box =
  extents :: point3
  rotation :: point2
  translation :: point3

subsection \<open>Roofs\<close>

text \<open>\<open>footprint[:, :2].min(axis=0)\<close> and \<open>.max(axis=0)\<close>, on a non-empty array.\<close>

definition min_pt :: "point2 list \<Rightarrow> point2" where
  "min_pt fp = (Min (set (map fst fp)), Min (set (map snd fp)))"

definition max_pt :: "point2 list \<Rightarrow> point2" where
  "max_pt fp = (Max (set (map fst fp)), Max (set (map snd fp)))"

text \<open>
  \<open>_gabled_roof\<close> and \<open>_hipped_roof\<close>. On an empty array the reduction raises; the
  exception is caught and the result is \<open>None\<close>.
\<close>

definition gabled_roof :: "point2 list \<Rightarrow> real \<Rightarrow> mesh option" where
  "gabled_roof fp base_height =
     (if fp = [] then None
      else
        (let mn = min_pt fp; mx = max_pt fp;
             center_x = (fst mn + fst mx) / 2;
             width = fst mx - fst mn;
             ridge_height = width * 0.3
         in Some
           \<lparr>vertices =
              [(fst mn, snd mn, base_height),
               (fst mx, snd mn, base_height),
               (fst mx, snd mx, base_height),
               (fst mn, snd mx, base_height),
               (center_x, snd mn, base_height + ridge_height),
               (center_x, snd mx, base_height + ridge_height)],
            faces = [(0, 1, 4), (1, 2, 5), (1, 5, 4), (2, 3, 5), (3, 0, 4), (3, 4, 5)]\<rparr>))"

definition hipped_roof :: "point2 list \<Rightarrow> real \<Rightarrow> mesh option" where
  "hipped_roof fp base_height =
     (if fp = [] then None
      else
        (let mn = min_pt fp; mx = max_pt fp;
             center = ((fst mn + fst mx) / 2, (snd mn + snd mx) / 2);
             width = fst mx - fst mn;
             ridge_height = width * 0.25
         in Some
           \<lparr>vertices =
              [(fst mn, snd mn, base_height),
               (fst mx, snd mn, base_height),
               (fst mx, snd mx, base_height),
               (fst mn, snd mx, base_height),
               (fst center, snd center, base_height + ridge_height)],
            faces = [(0, 1, 4), (1, 2, 4), (2, 3, 4), (3, 0, 4)]\<rparr>))"

text \<open>\<open>_generate_roof\<close>\<close>

definition generate_roof :: "point2 list \<Rightarrow> real \<Rightarrow> string \<Rightarrow> mesh option" where
  "generate_roof fp building_height rt =
     (if rt = ''flat'' then None
      else if rt = ''gabled'' then gabled_roof fp building_height
      else if rt = ''hipped'' then hipped_roof fp building_height
      else None)"

text \<open>Every index of a face names a vertex of the mesh.\<close>

definition faces_valid :: "mesh \<Rightarrow> bool" where
  "faces_valid m =
     list_all (\<lambda>f. fst f < length (vertices m) \<and> fst (snd f) < length (vertices m)
                  \<and> snd (snd f) < length (vertices m)) (faces m)"

subsection \<open>Balconies\<close>

text \<open>\<open>np.linalg.norm(q - p)\<close>\<close>

definition edge_length :: "point2 \<Rightarrow> point2 \<Rightarrow> real" where
  "edge_length p q = sqrt ((fst q - fst p)\<^sup>2 + (snd q - snd p)\<^sup>2)"

text \<open>The search for the longest edge: the first index with the greatest length wins.\<close>

fun longest_edge_loop :: "point2 list \<Rightarrow> nat list \<Rightarrow> nat \<times> real \<Rightarrow> nat \<times> real" where
  "longest_edge_loop pts [] best = best"
| "longest_edge_loop pts (i # idxs) best =
     (let edge_len = edge_length (pts ! i) (pts ! (i + 1))
      in longest_edge_loop pts idxs (if edge_len > snd best then (i, edge_len) else best))"

definition longest_edge :: "point2 list \<Rightarrow> nat \<times> real" where
  "longest_edge pts = longest_edge_loop pts [0..<length pts - 1] (0, 0)"

text \<open>
  \<open>_generate_balconies\<close>. With fewer than two points \<open>pts[best_idx + 1]\<close> raises
  \<open>IndexError\<close>, which is caught, and the empty list is returned. When the longest
  edge has length zero the division by the norm yields \<open>nan\<close> in numpy: that case is
  outside this model of numbers and is the result \<open>None\<close>.
\<close>

definition generate_balconies :: "point2 list \<Rightarrow> int \<Rightarrow> real \<Rightarrow> placed_box list option" where
  "generate_balconies fp floors floor_height =
     (if length fp < 2 then Some []
      else
        (let best = longest_edge fp;
             best_idx = fst best;
             best_len = snd best;
             edge_start = fp ! best_idx;
             edge_end = fp ! (best_idx + 1);
             edge_vec = (fst edge_end - fst edge_start, snd edge_end - snd edge_start);
             norm_vec = sqrt ((fst edge_vec)\<^sup>2 + (snd edge_vec)\<^sup>2)
         in if norm_vec = 0 then None
            else
              (let edge_dir = (fst edge_vec / norm_vec, snd edge_vec / norm_vec);
                   normal = (- snd edge_dir, fst edge_dir);
                   balcony_width = min 2.5 (best_len * 0.3);
                   balcony_depth = 1.2;
                   balcony_thickness = 0.15;
                   mid = ((fst edge_start + fst edge_end) / 2, (snd edge_start + snd edge_end) / 2)
               in Some (concat (map
                    (\<lambda>floor_idx.
                       (let z_pos = real_of_int floor_idx * floor_height
                        in [\<lparr>extents = (balcony_width, balcony_depth, balcony_thickness),
                             rotation = edge_dir,
                             translation =
                               (fst mid + fst normal * (balcony_depth / 2),
                                snd mid + snd normal * (balcony_depth / 2),
                                z_pos)\<rparr>,
                            \<lparr>extents = (balcony_width, 0.05, 1.0),
                             rotation = edge_dir,
                             translation =
                               (fst mid + fst normal * balcony_depth,
                                snd mid + snd normal * balcony_depth,
                                z_pos + 0.5)\<rparr>]))
                    [1..floors - 1])))))"

text \<open>
  Whether a point lies inside a polygon given by its closed ring of vertices, by the
  even-odd rule: a ray from the point in the direction of growing \<open>x\<close> crosses the
  boundary an odd number of times.
\<close>

definition crosses :: "point2 \<Rightarrow> point2 \<times> point2 \<Rightarrow> bool" where
  "crosses pt e =
     (((snd (fst e) > snd pt) \<noteq> (snd (snd e) > snd pt)) \<and>
      fst pt < (fst (snd e) - fst (fst e)) * (snd pt - snd (fst e)) / (snd (snd e) - snd (fst e))
                 + fst (fst e))"

definition inside_polygon :: "point2 list \<Rightarrow> point2 \<Rightarrow> bool" where
  "inside_polygon pts pt = odd (length (filter (crosses pt) (zip pts (tl pts))))"

text \<open>
  Vocabulary for the placement of a box on an edge from \<open>s\<close> to \<open>e\<close>: the unit
  vector along the edge, the unit normal to its left (the direction turned a quarter
  turn counter-clockwise), and the midpoint.
\<close>

definition edge_direction :: "point2 \<Rightarrow> point2 \<Rightarrow> point2" where
  "edge_direction s e = ((fst e - fst s) / edge_length s e, (snd e - snd s) / edge_length s e)"

definition left_normal :: "point2 \<Rightarrow> point2 \<Rightarrow> point2" where
  "left_normal s e = (- snd (edge_direction s e), fst (edge_direction s e))"

definition midpoint2 :: "point2 \<Rightarrow> point2 \<Rightarrow> point2" where
  "midpoint2 s e = ((fst s + fst e) / 2, (snd s + snd e) / 2)"

subsection \<open>The parameters of a building\<close>

text \<open>
  The \<open>building_data\<close> dict of \<open>generate_building\<close>: the key \<open>footprint\<close> is
  indexed directly, the other keys are read with \<open>get\<close> and may be absent.
\<close>

record building_data =
  bd_footprint :: "point2 list option"
  bd_height :: "real option"
  bd_floors :: "int option"
  bd_floor_height :: "real option"
  bd_roof_type :: "string option"
  bd_facade :: "string option"
  bd_windows :: bool
  bd_balconies :: bool

text \<open>The values the geometry steps work with, as computed before the first step.\<close>

record gen_params =
  gp_footprint :: "point2 list"
  gp_height :: real
  gp_floors :: int
  gp_floor_height :: real
  gp_roof_type :: string
  gp_facade_mat :: string
  gp_roof_mat :: string
  gp_windows :: bool
  gp_balconies :: bool

text \<open>
  \<open>generate_building\<close>. The default of
  \<open>building_data.get("floor_height", height / floors)\<close> is an argument of the call and
  is evaluated whether or not the key is present. The geometry steps that follow (body,
  floor plates, roof, windows, door, balconies, cornice, each with its own exception
  handler) are the parameter \<open>steps\<close>, applied to the values computed here.
\<close>

definition generate_building :: "(gen_params \<Rightarrow> 'scene) \<Rightarrow> building_data \<Rightarrow> py_error + 'scene" where
  "generate_building steps bd =
     (case bd_footprint bd of
        None \<Rightarrow> Inl KeyError
      | Some fp \<Rightarrow>
          (let height = (case bd_height bd of None \<Rightarrow> 10 | Some h \<Rightarrow> h);
               floors = (case bd_floors bd of None \<Rightarrow> 3 | Some f \<Rightarrow> f)
           in if floors = 0 then Inl ZeroDivisionError
              else
                (let dflt = height / real_of_int floors;
                     floor_height = (case bd_floor_height bd of None \<Rightarrow> dflt | Some fh \<Rightarrow> fh);
                     rt = (case bd_roof_type bd of None \<Rightarrow> ''flat'' | Some t \<Rightarrow> t);
                     facade_mat = (case bd_facade bd of None \<Rightarrow> ''concrete'' | Some m \<Rightarrow> m);
                     roof_mat = (if rt \<noteq> ''flat'' then ''roof_tile'' else ''concrete'')
                 in Inr (steps
                      \<lparr>gp_footprint = fp, gp_height = height, gp_floors = floors,
                       gp_floor_height = floor_height, gp_roof_type = rt,
                       gp_facade_mat = facade_mat, gp_roof_mat = roof_mat,
                       gp_windows = bd_windows bd, gp_balconies = bd_balconies bd\<rparr>))))"

section \<open>Meshy client (app/generation/meshy_client.py)\<close>

text \<open>
  A status request yields the decoded JSON of the response, or raises (a transport
  error, an HTTP error status from \<open>raise_for_status\<close>, a body that is no JSON).
  \<open>str.upper\<close> is the interpreter's and works on all of Unicode; it is the parameter
  \<open>str_upper\<close> of what follows.

  \<open>result.get("status", "").upper()\<close>: a response that is no dict has no \<open>get\<close>,
  and a status that is present and not a string has no \<open>upper\<close>.
\<close>

definition status_of :: "(string \<Rightarrow> string) \<Rightarrow> pyval \<Rightarrow> py_error + string" where
  "status_of str_upper result =
     (case result of
        PDict d \<Rightarrow>
          (case dict_get d ''status'' (PStr []) of
             PStr s \<Rightarrow> Inr (str_upper s)
           | _ \<Rightarrow> Inl AttributeError)
      | _ \<Rightarrow> Inl AttributeError)"

text \<open>
  \<open>result.get("message") or result.get("error") or "Unknown error"\<close>, evaluated
  after the status was read, so on a dict.
\<close>

definition error_msg_of :: "pyval \<Rightarrow> pyval" where
  "error_msg_of result =
     (case result of
        PDict d \<Rightarrow>
          (let m = dict_get d ''message'' PNone; e = dict_get d ''error'' PNone
           in if truthy m then m else if truthy e then e else PStr ''Unknown error'')
      | _ \<Rightarrow> PNone)"

text \<open>
  How \<open>poll_until_done\<close> ends: it returns the task result (\<open>Inr\<close>), or raises
  \<open>RuntimeError\<close> with the task's error message, or \<open>TimeoutError\<close>, or an exception
  of the status request or of reading the status passes through it (\<open>Raised\<close>).
\<close>

datatype poll_exn = RuntimeError pyval | TimeoutError | Raised py_error

text \<open>
  The loop. The remote service is the parameter \<open>get_fn\<close>: \<open>get_fn k\<close> is what the
  request number \<open>k\<close> (from 0) yields, a decoded response or an exception. The loop
  need not terminate (a poll interval of zero never advances \<open>elapsed\<close>), so no result
  is \<open>None\<close>.
\<close>

partial_function (option) poll_loop ::
  "(string \<Rightarrow> string) \<Rightarrow> (nat \<Rightarrow> py_error + pyval) \<Rightarrow> int \<Rightarrow> int \<Rightarrow> nat \<Rightarrow> int
     \<Rightarrow> (poll_exn + pyval) option"
where
  "poll_loop str_upper get_fn timeout poll_interval k elapsed =
     (if elapsed < timeout then
        (case get_fn k of
           Inl e \<Rightarrow> Some (Inl (Raised e))
         | Inr result \<Rightarrow>
             (case status_of str_upper result of
                Inl e \<Rightarrow> Some (Inl (Raised e))
              | Inr status \<Rightarrow>
                  if status = ''SUCCEEDED'' then Some (Inr result)
                  else if status = ''FAILED'' \<or> status = ''EXPIRED''
                  then Some (Inl (RuntimeError (error_msg_of result)))
                  else poll_loop str_upper get_fn timeout poll_interval (Suc k)
                         (elapsed + poll_interval)))
      else Some (Inl TimeoutError))"

definition poll_until_done ::
  "(string \<Rightarrow> string) \<Rightarrow> (nat \<Rightarrow> py_error + pyval) \<Rightarrow> (nat \<Rightarrow> py_error + pyval)
     \<Rightarrow> int \<Rightarrow> int \<Rightarrow> string \<Rightarrow> (poll_exn + pyval) option"
where
  "poll_until_done str_upper get_task get_image_task timeout poll_interval task_type =
     poll_loop str_upper (if task_type = ''text'' then get_task else get_image_task)
       timeout poll_interval 0 0"

text \<open>
  What a response says, read off the response itself: the text of its \<open>status\<close>
  field, which is empty when a JSON object has no such field, and which does not exist
  when the response is no JSON object or the field is no string. A check reports a
  status \<open>S\<close> when the request returned a response whose status text is \<open>S\<close> in upper
  case. A check is pending when it reports a status other than \<open>SUCCEEDED\<close>,
  \<open>FAILED\<close> and \<open>EXPIRED\<close>.
\<close>

definition status_text :: "pyval \<Rightarrow> string option" where
  "status_text result =
     (case result of
        PDict d \<Rightarrow>
          (case map_of d ''status'' of
             None \<Rightarrow> Some []
           | Some v \<Rightarrow> (case v of PStr s \<Rightarrow> Some s | _ \<Rightarrow> None))
      | _ \<Rightarrow> None)"

definition reports :: "(string \<Rightarrow> string) \<Rightarrow> py_error + pyval \<Rightarrow> string \<Rightarrow> bool" where
  "reports str_upper c S =
     (case c of
        Inl e \<Rightarrow> False
      | Inr result \<Rightarrow>
          (case status_text result of None \<Rightarrow> False | Some s \<Rightarrow> str_upper s = S))"

definition pending :: "(string \<Rightarrow> string) \<Rightarrow> py_error + pyval \<Rightarrow> bool" where
  "pending str_upper c =
     (case c of
        Inl e \<Rightarrow> False
      | Inr result \<Rightarrow>
          (case status_text result of
             None \<Rightarrow> False
           | Some s \<Rightarrow>
               str_upper s \<noteq> ''SUCCEEDED'' \<and> str_upper s \<noteq> ''FAILED'' \<and>
               str_upper s \<noteq> ''EXPIRED''))"

text \<open>
  A check fails to report at all when the request raised, or returned a response
  without a status text; \<open>check_error\<close> is the exception of such a check.
\<close>

definition check_error :: "py_error + pyval \<Rightarrow> py_error option" where
  "check_error c =
     (case c of
        Inl e \<Rightarrow> Some e
      | Inr result \<Rightarrow>
          (case status_text result of None \<Rightarrow> Some AttributeError | Some s \<Rightarrow> None))"

text \<open>
  \<open>str.upper\<close> restricted to strings of ASCII characters, where it changes the
  letters \<open>a\<close> to \<open>z\<close> only; an instance of \<open>str_upper\<close> for the example runs below,
  whose status strings are ASCII.
\<close>

definition upper_char :: "char \<Rightarrow> char" where
  "upper_char c =
     (case map_of (zip ''abcdefghijklmnopqrstuvwxyz'' ''ABCDEFGHIJKLMNOPQRSTUVWXYZ'') c of
        None \<Rightarrow> c
      | Some u \<Rightarrow> u)"

definition ascii_upper :: "string \<Rightarrow> string" where
  "ascii_upper s = map upper_char s"


section \<open>Properties of the normalizer\<close>

subsection \<open>Confidence threshold\<close>

lemma confidence_of_float:
  "py_float sf v = Inr c \<Longrightarrow> confidence_of sf v = Inr c"
  by (simp add: confidence_of_def)

lemma small_in_range: "\<bar>r\<bar> \<le> 2 ^ 64 \<Longrightarrow> \<bar>r\<bar> < float_overflow_bound"
proof -
  have "(2::real) ^ 64 < 2 ^ 1024 - 2 ^ 970" by simp
  then show "\<bar>r\<bar> \<le> 2 ^ 64 \<Longrightarrow> \<bar>r\<bar> < float_overflow_bound"
    by (simp add: float_overflow_bound_def)
qed

lemma int_to_float_in_range:
  "\<bar>real_of_int n\<bar> < float_overflow_bound \<Longrightarrow> int_to_float n = Inr (real_of_int n)"
  by (simp add: int_to_float_def)

lemma in_float_range_cases:
  assumes "in_float_range v"
  obtains (int) n where "v = PInt n" and "\<bar>real_of_int n\<bar> < float_overflow_bound"
    | (float) r where "v = PNum r" and "\<bar>r\<bar> < float_overflow_bound"
  using assms by (auto simp: in_float_range_def num_val_def split: pyval.splits)

lemma height_in_range:
  assumes "float_range_null_or_absent ab ''height_meters''"
  shows "in_float_range (let hm = dict_get ab ''height_meters'' PNone
                         in if truthy hm then hm else PNum 10)"
proof -
  have "in_float_range (PNum 10)"
    using small_in_range [of 10] by (simp add: in_float_range_def num_val_def)
  with assms show ?thesis
    by (auto simp: float_range_null_or_absent_def dict_get_def truthy_def Let_def
        split: option.splits)
qed

lemma py_trunc_abs: "\<bar>real_of_int (py_trunc q)\<bar> \<le> \<bar>q\<bar>"
proof (cases "0 \<le> q")
  case True
  then have "0 \<le> \<lfloor>q\<rfloor>" by simp
  moreover have "real_of_int \<lfloor>q\<rfloor> \<le> q" by (rule of_int_floor_le)
  ultimately show ?thesis using True by (simp add: py_trunc_def)
next
  case False
  then have "\<lceil>q\<rceil> \<le> 0" by (simp add: ceiling_le_zero)
  moreover have "q \<le> real_of_int \<lceil>q\<rceil>" by (rule le_of_int_ceiling)
  ultimately show ?thesis using False by (simp add: py_trunc_def)
qed

lemma floors_of_in_range:
  assumes "float_range_null_or_absent ab ''floor_count''" and "in_float_range height"
  shows "\<exists>fl. floors_of ab height = Inr fl \<and> in_float_range fl \<and> truthy fl"
proof (cases "truthy (dict_get ab ''floor_count'' PNone)")
  case True
  with assms(1) show ?thesis
    by (auto simp: floors_of_def float_range_null_or_absent_def dict_get_def truthy_def
        split: option.splits)
next
  case False
  have "\<exists>v. py_truediv height (PNum 3) = Inr (v / 3) \<and> \<bar>v\<bar> < float_overflow_bound"
    using assms(2)
    by (cases rule: in_float_range_cases) (auto simp: py_truediv_def int_to_float_in_range)
  then obtain v where v: "py_truediv height (PNum 3) = Inr (v / 3)" "\<bar>v\<bar> < float_overflow_bound"
    by blast
  let ?n = "max 1 (py_trunc (v / 3))"
  have one: "(1::real) < float_overflow_bound"
    using small_in_range [of 1] by simp
  have "\<bar>real_of_int (py_trunc (v / 3))\<bar> \<le> \<bar>v / 3\<bar>" by (rule py_trunc_abs)
  also have "\<dots> \<le> \<bar>v\<bar>" by simp
  finally have t: "\<bar>real_of_int (py_trunc (v / 3))\<bar> < float_overflow_bound"
    using v(2) by simp
  have pos: "1 \<le> ?n" by simp
  have "\<bar>real_of_int ?n\<bar> < float_overflow_bound"
    using t one by (auto simp: max_def abs_if split: if_splits)
  with pos False v(1) show ?thesis
    by (simp add: floors_of_def in_float_range_def num_val_def truthy_def)
qed

lemma abs_divide_le:
  fixes x y :: real
  assumes "1 \<le> \<bar>y\<bar>"
  shows "\<bar>x / y\<bar> \<le> \<bar>x\<bar>"
proof -
  have "\<bar>x / y\<bar> = \<bar>x\<bar> / \<bar>y\<bar>" by (rule abs_divide)
  also have "\<dots> \<le> \<bar>x\<bar> / 1" using assms by (intro divide_left_mono) simp_all
  finally show ?thesis by simp
qed

lemma floor_height_of_in_range:
  assumes "in_float_range height" and "in_float_range fl" and "truthy fl"
  shows "\<exists>fh. floor_height_of ab height fl = Inr fh"
proof (cases "truthy (dict_get ab ''floor_height_meters'' PNone)")
  case True
  then show ?thesis by (simp add: floor_height_of_def)
next
  case False
  have "\<exists>q. py_truediv height fl = Inr q"
    using assms(1)
  proof (cases rule: in_float_range_cases)
    case (int a)
    note a = this
    from assms(2) show ?thesis
    proof (cases rule: in_float_range_cases)
      case (int b)
      with assms(3) have b0: "b \<noteq> 0" by (simp add: truthy_def)
      then have "1 \<le> \<bar>real_of_int b\<bar>" by (simp add: abs_if)
      then have "\<bar>real_of_int a / real_of_int b\<bar> \<le> \<bar>real_of_int a\<bar>"
        by (rule abs_divide_le)
      with a(2) have "\<not> float_overflow_bound \<le> \<bar>real_of_int a / real_of_int b\<bar>" by linarith
      with a(1) int b0 show ?thesis by (simp add: py_truediv_def)
    next
      case (float b)
      with assms(3) a show ?thesis
        by (simp add: py_truediv_def truthy_def int_to_float_in_range)
    qed
  next
    case (float a)
    note a = this
    from assms(2) show ?thesis
    proof (cases rule: in_float_range_cases)
      case (int b)
      with assms(3) a show ?thesis
        by (simp add: py_truediv_def truthy_def int_to_float_in_range)
    next
      case (float b)
      with assms(3) a show ?thesis by (simp add: py_truediv_def truthy_def)
    qed
  qed
  with False show ?thesis by (auto simp: floor_height_of_def)
qed

lemma footprint_of_numeric:
  assumes "numeric_or_absent ab ''width''" and "i \<le> 1114046"
  shows "\<exists>fp. footprint_of coords i (dict_get ab ''width'' (PInt 20)) d = Inr fp"
proof -
  have "\<bar>real_of_int (int i)\<bar> \<le> 2 ^ 64" using assms(2) by simp
  then have "int_to_float (int i) = Inr (real_of_int (int i))"
    by (intro int_to_float_in_range small_in_range)
  with assms(1) show ?thesis
    by (auto simp: footprint_of_def synth_footprint_def numeric_or_absent_def dict_get_def
        is_num_def Let_def split: option.splits pyval.splits)
qed

text \<open>
  What the loop returns is what its iterations contributed, in order: when no iteration
  raises, the output is the accumulator followed by the records of the kept entries.
\<close>

lemma normalize_loop_contributions:
  "normalize_loop sf coords ov i es acc = Inr out \<Longrightarrow>
     out = acc @ contributions sf coords ov i es"
proof (induction es arbitrary: i acc)
  case Nil
  then show ?case by simp
next
  case (Cons e es)
  show ?case
  proof (cases "normalize_entry sf coords ov i e")
    case (Inl err)
    with Cons.prems show ?thesis by simp
  next
    case (Inr r)
    show ?thesis
    proof (cases r)
      case None
      with Inr Cons.prems Cons.IH [of "Suc i" acc] show ?thesis by simp
    next
      case (Some b)
      with Inr Cons.prems Cons.IH [of "Suc i" "acc @ [b]"] show ?thesis by simp
    qed
  qed
qed

text \<open>
  C1 (amended). For an entry whose effective confidence converts to the float \<open>c\<close>:
  if \<open>c < 0.3\<close> the iteration drops the entry and raises nothing; if \<open>c \<ge> 0.3\<close> and
  the values that enter arithmetic are well typed (\<open>width\<close> a number or absent,
  \<open>height_meters\<close> and \<open>floor_count\<close> a number within the range of the floats, null
  or absent), the iteration appends exactly one record, which carries \<open>c\<close> as its
  \<open>ai_confidence\<close>. The index is one for which the default name exists (\<open>65 + i\<close> a
  code point).
\<close>

theorem c1_threshold:
  assumes "py_float sf (effective_confidence ov ab) = Inr c"
  shows "(c < 0.3 \<longrightarrow> normalize_entry sf coords ov i (PDict ab) = Inr None) \<and>
         (0.3 \<le> c \<and> i \<le> 1114046 \<and> numeric_or_absent ab ''width'' \<and>
          float_range_null_or_absent ab ''height_meters'' \<and>
          float_range_null_or_absent ab ''floor_count'' \<longrightarrow>
            (\<exists>b. normalize_entry sf coords ov i (PDict ab) = Inr (Some b) \<and>
                 map_of (specifications b) ''ai_confidence'' = Some (PNum c)))"
proof (intro conjI impI)
  assume "c < 0.3"
  with assms show "normalize_entry sf coords ov i (PDict ab) = Inr None"
    by (simp add: normalize_entry_def confidence_of_float CONFIDENCE_THRESHOLD_def)
next
  assume h: "0.3 \<le> c \<and> i \<le> 1114046 \<and> numeric_or_absent ab ''width'' \<and>
          float_range_null_or_absent ab ''height_meters'' \<and>
          float_range_null_or_absent ab ''floor_count''"
  let ?height = "if truthy (dict_get ab ''height_meters'' PNone)
                 then dict_get ab ''height_meters'' PNone else PNum 10"
  from h have hr: "in_float_range ?height"
    using height_in_range [of ab] by (simp add: Let_def)
  from h hr obtain fl where fl: "floors_of ab ?height = Inr fl" "in_float_range fl" "truthy fl"
    using floors_of_in_range by blast
  from hr fl obtain fh where fh: "floor_height_of ab ?height fl = Inr fh"
    using floor_height_of_in_range by blast
  from h obtain fp where fp:
    "footprint_of coords i (dict_get ab ''width'' (PInt 20)) (dict_get ab ''depth'' (PInt 15))
       = Inr fp"
    using footprint_of_numeric by blast
  from h have nm: "default_name i = Inr (PStr (''Building '' @ [char_of (65 + i)]))"
    by (simp add: default_name_def)
  from h have "\<not> c < 3 / 10" by simp
  with assms fl(1) fh fp nm
  show "\<exists>b. normalize_entry sf coords ov i (PDict ab) = Inr (Some b) \<and>
                 map_of (specifications b) ''ai_confidence'' = Some (PNum c)"
    by (simp add: normalize_entry_def confidence_of_float CONFIDENCE_THRESHOLD_def Let_def)
qed

text \<open>The two entries of the repository's test \<open>test_low_confidence_filtered\<close>.\<close>

theorem c1_threshold_witness:
  "normalize_entry (\<lambda>s. None) [] (PNum 0.5) 0
      (PDict [(''name'', PStr ''Bad''), (''height_meters'', PInt 5), (''_confidence'', PNum 0.1)])
     = Inr None \<and>
   (\<exists>b. normalize_entry (\<lambda>s. None) [] (PNum 0.5) 1
      (PDict [(''name'', PStr ''Good''), (''height_meters'', PInt 15), (''_confidence'', PNum 0.8)])
         = Inr (Some b)
      \<and> map_of (specifications b) ''ai_confidence'' = Some (PNum 0.8))"
proof -
  have a: "py_float (\<lambda>s. None) (effective_confidence (PNum 0.5)
      [(''name'', PStr ''Bad''), (''height_meters'', PInt 5), (''_confidence'', PNum 0.1)]) = Inr 0.1"
    by (simp add: py_float_def effective_confidence_def dict_get_def)
  have b: "py_float (\<lambda>s. None) (effective_confidence (PNum 0.5)
      [(''name'', PStr ''Good''), (''height_meters'', PInt 15), (''_confidence'', PNum 0.8)]) = Inr 0.8"
    by (simp add: py_float_def effective_confidence_def dict_get_def)
  show ?thesis
    using c1_threshold [OF a, of "[]" 0] c1_threshold [OF b, of "[]" 1]
    by (simp add: numeric_or_absent_def float_range_null_or_absent_def in_float_range_def
        num_val_def float_overflow_bound_def)
qed

text \<open>
  C1 as stated fails: the entry \<open>{"_confidence": 0.9, "width": None}\<close> has effective
  confidence 0.9, yet with no extracted polygon \<open>width + 10\<close> raises \<open>TypeError\<close>; the
  entry contributes nothing and the exception leaves the function.
\<close>

theorem c1_counterexample:
  "py_float (\<lambda>s. None) (effective_confidence (PNum 0)
       [(''_confidence'', PNum 0.9), (''width'', PNone)]) = Inr 0.9 \<and>
   normalize_entry (\<lambda>s. None) [] (PNum 0) 0
       (PDict [(''_confidence'', PNum 0.9), (''width'', PNone)]) = Inl TypeError \<and>
   normalize_extraction_data (\<lambda>s. None) []
       (PDict [(''buildings'', PList [PDict [(''_confidence'', PNum 0.9), (''width'', PNone)]])])
     = Inl TypeError"
  by (simp add: py_float_def effective_confidence_def dict_get_def
      normalize_entry_def confidence_of_def CONFIDENCE_THRESHOLD_def truthy_def floors_of_def
      floor_height_of_def py_truediv_def py_trunc_def footprint_of_def synth_footprint_def
      int_to_float_def float_overflow_bound_def
      normalize_extraction_data_def ai_buildings_of_def iterate_def default_name_def)

text \<open>
  Why the heights and floor counts have to lie within the range of the floats: the
  entry \<open>{"_confidence": 0.9, "height_meters": 10 ** 400}\<close> passes the threshold, and
  \<open>height / 3.0\<close> then raises \<open>OverflowError\<close>. With the floor count \<open>10 ** 399\<close>
  given as well, both operands of \<open>height / floors\<close> are \<open>int\<close>s, the quotient is 10
  and nothing is raised.
\<close>

lemma height_overflow_example:
  "normalize_entry (\<lambda>s. None) [] (PNum 0) 0
       (PDict [(''_confidence'', PNum 0.9), (''height_meters'', PInt (10 ^ 400))])
     = Inl OverflowError"
  by (simp add: normalize_entry_def confidence_of_def py_float_def effective_confidence_def
      dict_get_def CONFIDENCE_THRESHOLD_def truthy_def floors_of_def py_truediv_def
      int_to_float_def float_overflow_bound_def)

lemma int_division_example:
  "map_option floor_height_meters
     (projr (normalize_entry (\<lambda>s. None) [] (PNum 0) 0
       (PDict [(''_confidence'', PNum 0.9), (''height_meters'', PInt (10 ^ 400)),
               (''floor_count'', PInt (10 ^ 399))])))
     = Some (PNum 10)"
  by (simp add: normalize_entry_def confidence_of_def py_float_def effective_confidence_def
      dict_get_def CONFIDENCE_THRESHOLD_def truthy_def floors_of_def floor_height_of_def
      py_truediv_def float_overflow_bound_def footprint_of_def synth_footprint_def
      default_name_def Let_def)

subsection \<open>Confidence values that do not convert\<close>

text \<open>
  A confidence for which \<open>float\<close> raises \<open>TypeError\<close> or \<open>ValueError\<close> (\<open>None\<close>, a
  string that is no number, a list, a dict) counts as 0.0 and the entry is dropped,
  whatever the overall confidence.
\<close>

lemma unconvertible_dropped:
  assumes "py_float sf (effective_confidence ov ab) = Inl e" and "e = TypeError \<or> e = ValueError"
  shows "normalize_entry sf coords ov i (PDict ab) = Inr None"
  using assms by (auto simp add: normalize_entry_def confidence_of_def CONFIDENCE_THRESHOLD_def)

text \<open>
  C10, at the failing input: an integer confidence too large for a float, here
  \<open>10 ** 400\<close>, cannot be converted either, but \<open>float\<close> raises \<open>OverflowError\<close>,
  which the handler for \<open>(TypeError, ValueError)\<close> does not catch. The entry is not
  coerced to 0.0 and dropped: the exception leaves the normalizer.
\<close>

theorem c10_overflow_escapes:
  "py_float (\<lambda>s. None) (PInt (10 ^ 400)) = Inl OverflowError \<and>
   normalize_extraction_data (\<lambda>s. None) []
       (PDict [(''buildings'',
          PList [PDict [(''name'', PStr ''Tower''), (''_confidence'', PInt (10 ^ 400))]])])
     = Inl OverflowError"
  by (simp add: py_float_def int_to_float_def effective_confidence_def dict_get_def
      float_overflow_bound_def
      normalize_entry_def confidence_of_def
      normalize_extraction_data_def ai_buildings_of_def iterate_def truthy_def)

subsection \<open>Footprints\<close>

lemma synth_footprint_closed:
  "synth_footprint i w d = Inr fp \<Longrightarrow> closed_polygon fp"
  by (auto simp: synth_footprint_def closed_polygon_def is_xy_pair_def Let_def
      split: pyval.splits sum.splits)

lemma footprint_of_cases:
  "footprint_of coords i w d = Inr fp \<Longrightarrow> closed_polygon fp \<or> fp \<in> set coords"
  by (auto simp: footprint_of_def synth_footprint_closed split: if_splits)

lemma normalize_entry_footprint:
  assumes "normalize_entry sf coords ov i e = Inr (Some b)"
  shows "closed_polygon (footprint b) \<or> footprint b \<in> set coords"
  using assms
  by (auto simp: normalize_entry_def Let_def dest: footprint_of_cases
      split: pyval.splits sum.splits if_splits)

lemma contributions_footprints:
  "b \<in> set (contributions sf coords ov i es) \<Longrightarrow>
     closed_polygon (footprint b) \<or> footprint b \<in> set coords"
proof (induction es arbitrary: i)
  case Nil
  then show ?case by simp
next
  case (Cons e es)
  then show ?case
    using normalize_entry_footprint [of sf coords ov i e]
    by (auto split: sum.splits option.splits)
qed

lemma coordinate_buildings_footprints:
  "coordinate_buildings i cs acc = Inr out \<Longrightarrow>
     footprint ` set out = footprint ` set acc \<union> set cs"
proof (induction cs arbitrary: i acc)
  case Nil
  then show ?case by simp
next
  case (Cons c cs)
  from Cons.prems obtain nm where nm: "default_name i = Inr nm"
    by (auto split: sum.splits)
  let ?b = "\<lparr>name = nm, height_meters = PNum 10, floor_count = PInt 3,
             floor_height_meters = PNum 3.33, roof_type = PStr ''flat'', footprint = c,
             specifications = []\<rparr>"
  from Cons.prems nm have "coordinate_buildings (Suc i) cs (acc @ [?b]) = Inr out"
    by simp
  from Cons.IH [OF this] show ?case by auto
qed

lemma default_building_closed: "closed_polygon (footprint default_building)"
  by (simp add: default_building_def closed_polygon_def is_xy_pair_def)

text \<open>
  C2 (amended). Every record the normalizer returns has a footprint that is either a
  closed polygon built by the normalizer itself (the rectangle synthesized for an AI
  entry with no extracted polygon at its index, or the rectangle of the final fallback:
  five two-element points, the last repeating the first) or one of the extracted
  coordinate polygons, passed through unchanged.
\<close>

theorem c2_footprints:
  assumes "normalize_extraction_data sf coords interp = Inr out" and "b \<in> set out"
  shows "closed_polygon (footprint b) \<or> footprint b \<in> set coords"
proof -
  let ?ov = "(case interp of PDict ir \<Rightarrow> dict_get ir ''confidence'' (PNum 0) | _ \<Rightarrow> PNum 0)"
  from assms(1) obtain ai where ai: "ai_buildings_of interp ?ov = Inr ai"
    by (auto simp: normalize_extraction_data_def Let_def split: sum.splits)
  show ?thesis
  proof (cases "truthy ai")
    case True
    with assms(1) ai obtain es where "iterate ai = Inr es"
      and "normalize_loop sf coords ?ov 0 es [] = Inr out"
      by (auto simp: normalize_extraction_data_def Let_def split: sum.splits)
    then have "out = contributions sf coords ?ov 0 es"
      using normalize_loop_contributions by fastforce
    with assms(2) show ?thesis using contributions_footprints by blast
  next
    case False
    show ?thesis
    proof (cases "coords = []")
      case True
      with False assms ai show ?thesis
        by (auto simp: normalize_extraction_data_def Let_def default_building_closed)
    next
      case ne: False
      with False assms(1) ai have "coordinate_buildings 0 coords [] = Inr out"
        by (simp add: normalize_extraction_data_def Let_def)
      from coordinate_buildings_footprints [OF this] assms(2) show ?thesis by auto
    qed
  qed
qed

text \<open>The fallback: no coordinates and an empty interpretation.\<close>

theorem c2_footprints_witness:
  "closed_polygon (footprint default_building) \<or> footprint default_building \<in> set []"
proof -
  have "normalize_extraction_data (\<lambda>s. None) [] (PDict []) = Inr [default_building]"
    by (simp add: normalize_extraction_data_def ai_buildings_of_def dict_get_def truthy_def)
  from c2_footprints [OF this, of default_building] show ?thesis by simp
qed

text \<open>
  C2 as stated fails for a record built from an extracted polygon: \<open>extract_cad\<close>
  yields the open three-point polyline as a footprint candidate, and the normalizer
  passes it on as it is, with three points and the last different from the first.
\<close>

theorem c2_counterexample:
  "coordinates (extract_cad (Inr ([''0''], PInt 0,
       [LWPOLYLINE [(0, 0), (10, 0), (10, 10)] False ''0''])))
     = [PList [PList [PNum 0, PNum 0], PList [PNum 10, PNum 0], PList [PNum 10, PNum 10]]] \<and>
   map footprint (projr (normalize_extraction_data (\<lambda>s. None)
       [PList [PList [PNum 0, PNum 0], PList [PNum 10, PNum 0], PList [PNum 10, PNum 10]]]
       (PDict [])))
     = [PList [PList [PNum 0, PNum 0], PList [PNum 10, PNum 0], PList [PNum 10, PNum 10]]] \<and>
   \<not> closed_polygon
       (PList [PList [PNum 0, PNum 0], PList [PNum 10, PNum 0], PList [PNum 10, PNum 10]])"
  by (simp add: normalize_extraction_data_def ai_buildings_of_def dict_get_def truthy_def
      closed_polygon_def extract_cad_def empty_result_def points_list_def py_len_def
      default_name_def)

subsection \<open>Synthesized rectangles\<close>

lemma those_map_filter:
  "those (map f xs) = Some ys \<Longrightarrow> List.map_filter f xs = ys"
  by (induction xs arbitrary: ys) (auto simp: List.map_filter_simps split: option.splits)

lemma polygon_xy_points:
  "polygon_xy fp = Some pts \<Longrightarrow> footprint_points fp = pts"
  by (auto simp: polygon_xy_def footprint_points_def those_map_filter split: pyval.splits)

lemma synth_footprint_xy:
  assumes "synth_footprint i width depth = Inr fp"
    and "num_val width = Some w" and "num_val depth = Some d"
  shows "polygon_xy fp = Some [(real i * (w + 10), 0), (real i * (w + 10) + w, 0),
                              (real i * (w + 10) + w, d), (real i * (w + 10), d),
                              (real i * (w + 10), 0)]"
proof (cases width)
  case (PInt n)
  with assms show ?thesis
    by (auto simp: synth_footprint_def polygon_xy_def num_val_def Let_def)
next
  case (PNum r)
  with assms show ?thesis
    by (auto simp: synth_footprint_def polygon_xy_def num_val_def Let_def int_to_float_def
        split: if_splits)
qed (use assms in \<open>simp_all add: num_val_def\<close>)

lemma in_rect_synth:
  assumes "polygon_xy fp = Some [(a, 0), (a + w, 0), (a + w, d), (a, d), (a, 0)]"
    and "0 \<le> w" and "in_rect fp p"
  shows "a \<le> fst p \<and> fst p \<le> a + w"
  using assms(2,3) polygon_xy_points [OF assms(1)]
  by (simp add: in_rect_def Let_def min_def max_def split: if_splits)

lemma normalize_entry_synth:
  assumes "normalize_entry sf coords ov i (PDict ab) = Inr (Some b)"
    and "length coords \<le> i"
  shows "synth_footprint i (dict_get ab ''width'' (PInt 20)) (dict_get ab ''depth'' (PInt 15))
           = Inr (footprint b)"
  using assms
  by (auto simp: normalize_entry_def Let_def footprint_of_def split: sum.splits if_splits)

lemma offsets_separated:
  fixes wi wj :: real
  assumes "i < j" "0 \<le> wi" "wi \<le> wj"
  shows "real i * (wi + 10) + wi + 10 \<le> real j * (wj + 10)"
proof -
  have "real i * (wi + 10) + wi + 10 = real (Suc i) * (wi + 10)" by (simp add: algebra_simps)
  also have "\<dots> \<le> real (Suc i) * (wj + 10)" using assms by (intro mult_left_mono) auto
  also have "\<dots> \<le> real j * (wj + 10)" using assms by (intro mult_right_mono) auto
  finally show ?thesis .
qed

text \<open>
  C3 (amended). Two entries \<open>i < j\<close> that both get a synthesized footprint (no
  extracted polygon at index \<open>i\<close> or beyond) and have numeric widths and depths:
  each footprint is the rectangle of the entry's own width and depth, offset along the
  x-axis by index times (own width + 10); and when \<open>0 \<le> width\<^sub>i \<le> width\<^sub>j\<close> the
  two rectangles have no point in common. The widths and depths are \<open>int\<close>s or
  \<open>float\<close>s, and the vertices are given by the values of their coordinates.
\<close>

theorem c3_synth_layout:
  assumes "normalize_entry sf coords ov i (PDict a) = Inr (Some bi)"
    and "normalize_entry sf coords ov j (PDict b) = Inr (Some bj)"
    and "length coords \<le> i" and "i < j"
    and "num_val (dict_get a ''width'' (PInt 20)) = Some wi"
    and "num_val (dict_get a ''depth'' (PInt 15)) = Some di"
    and "num_val (dict_get b ''width'' (PInt 20)) = Some wj"
    and "num_val (dict_get b ''depth'' (PInt 15)) = Some dj"
  shows "polygon_xy (footprint bi) =
           Some [(real i * (wi + 10), 0), (real i * (wi + 10) + wi, 0),
                 (real i * (wi + 10) + wi, di), (real i * (wi + 10), di),
                 (real i * (wi + 10), 0)] \<and>
         polygon_xy (footprint bj) =
           Some [(real j * (wj + 10), 0), (real j * (wj + 10) + wj, 0),
                 (real j * (wj + 10) + wj, dj), (real j * (wj + 10), dj),
                 (real j * (wj + 10), 0)] \<and>
         (0 \<le> wi \<and> wi \<le> wj \<longrightarrow>
            (\<forall>p. \<not> (in_rect (footprint bi) p \<and> in_rect (footprint bj) p)))"
proof -
  have fi: "polygon_xy (footprint bi) =
           Some [(real i * (wi + 10), 0), (real i * (wi + 10) + wi, 0),
                 (real i * (wi + 10) + wi, di), (real i * (wi + 10), di),
                 (real i * (wi + 10), 0)]"
    using synth_footprint_xy [OF normalize_entry_synth [OF assms(1) assms(3)] assms(5) assms(6)] .
  from assms(3,4) have "length coords \<le> j" by simp
  then have fj: "polygon_xy (footprint bj) =
           Some [(real j * (wj + 10), 0), (real j * (wj + 10) + wj, 0),
                 (real j * (wj + 10) + wj, dj), (real j * (wj + 10), dj),
                 (real j * (wj + 10), 0)]"
    using synth_footprint_xy [OF normalize_entry_synth [OF assms(2)] assms(7) assms(8)] by simp
  have "\<not> (in_rect (footprint bi) p \<and> in_rect (footprint bj) p)"
    if w: "0 \<le> wi" "wi \<le> wj" for p
  proof
    assume both: "in_rect (footprint bi) p \<and> in_rect (footprint bj) p"
    from w have wj: "0 \<le> wj" by simp
    from both have "fst p \<le> real i * (wi + 10) + wi"
      using in_rect_synth [OF fi w(1)] by blast
    moreover from both have "real j * (wj + 10) \<le> fst p"
      using in_rect_synth [OF fj wj] by blast
    moreover have "real i * (wi + 10) + wi + 10 \<le> real j * (wj + 10)"
      using offsets_separated [OF assms(4) w] .
    ultimately show False by linarith
  qed
  with fi fj show ?thesis by blast
qed

text \<open>
  Entry 0 with the default 20 by 15 (\<open>int\<close>s), entry 1 with the \<open>float\<close>s 30.0 by
  12.0.
\<close>

theorem c3_synth_layout_witness:
  "polygon_xy (PList [PList [PInt 0, PInt 0], PList [PInt 20, PInt 0],
                      PList [PInt 20, PInt 15], PList [PInt 0, PInt 15],
                      PList [PInt 0, PInt 0]])
     = Some [(0, 0), (20, 0), (20, 15), (0, 15), (0, 0)] \<and>
   polygon_xy (PList [PList [PNum 40, PInt 0], PList [PNum 70, PInt 0],
                      PList [PNum 70, PNum 12], PList [PNum 40, PNum 12],
                      PList [PNum 40, PInt 0]])
     = Some [(40, 0), (70, 0), (70, 12), (40, 12), (40, 0)] \<and>
   (\<forall>p. \<not> (in_rect (PList [PList [PInt 0, PInt 0], PList [PInt 20, PInt 0],
                          PList [PInt 20, PInt 15], PList [PInt 0, PInt 15],
                          PList [PInt 0, PInt 0]]) p \<and>
           in_rect (PList [PList [PNum 40, PInt 0], PList [PNum 70, PInt 0],
                          PList [PNum 70, PNum 12], PList [PNum 40, PNum 12],
                          PList [PNum 40, PInt 0]]) p))"
proof -
  let ?a = "[(''name'', PStr ''A''), (''_confidence'', PNum 0.9)]"
  let ?b = "[(''name'', PStr ''B''), (''width'', PNum 30), (''depth'', PNum 12),
             (''_confidence'', PNum 0.9)]"
  obtain bi where bi: "normalize_entry (\<lambda>s. None) [] (PNum 0) 0 (PDict ?a) = Inr (Some bi)"
    and fi: "footprint bi = PList [PList [PInt 0, PInt 0], PList [PInt 20, PInt 0],
                          PList [PInt 20, PInt 15], PList [PInt 0, PInt 15],
                          PList [PInt 0, PInt 0]]"
    by (simp add: normalize_entry_def confidence_of_def effective_confidence_def py_float_def
        int_to_float_def float_overflow_bound_def dict_get_def CONFIDENCE_THRESHOLD_def
        truthy_def floors_of_def floor_height_of_def py_truediv_def py_trunc_def
        footprint_of_def synth_footprint_def Let_def default_name_def)
  obtain bj where bj: "normalize_entry (\<lambda>s. None) [] (PNum 0) 1 (PDict ?b) = Inr (Some bj)"
    and fj: "footprint bj = PList [PList [PNum 40, PInt 0], PList [PNum 70, PInt 0],
                          PList [PNum 70, PNum 12], PList [PNum 40, PNum 12],
                          PList [PNum 40, PInt 0]]"
    by (simp add: normalize_entry_def confidence_of_def effective_confidence_def py_float_def
        int_to_float_def float_overflow_bound_def dict_get_def CONFIDENCE_THRESHOLD_def
        truthy_def floors_of_def floor_height_of_def py_truediv_def py_trunc_def
        footprint_of_def synth_footprint_def Let_def default_name_def)
  have wa: "num_val (dict_get ?a ''width'' (PInt 20)) = Some 20"
    "num_val (dict_get ?a ''depth'' (PInt 15)) = Some 15"
    by (simp_all add: dict_get_def num_val_def)
  have wb: "num_val (dict_get ?b ''width'' (PInt 20)) = Some 30"
    "num_val (dict_get ?b ''depth'' (PInt 15)) = Some 12"
    by (simp_all add: dict_get_def num_val_def)
  have i0: "length ([]::pyval list) \<le> 0" and ij: "(0::nat) < 1" by simp_all
  note r = c3_synth_layout [OF bi bj i0 ij wa wb]
  from r show ?thesis unfolding fi fj by simp
qed

text \<open>
  C3 as stated fails when a later entry is narrower: with widths 100 and 20 the
  rectangles span \<open>x\<close> from 0 to 100 and from 30 to 50, and the point \<open>(40, 5)\<close> lies
  in both.
\<close>

theorem c3_counterexample:
  "map footprint (projr (normalize_extraction_data (\<lambda>s. None) []
      (PDict [(''buildings'', PList
         [PDict [(''name'', PStr ''A''), (''width'', PInt 100), (''depth'', PInt 10),
                 (''_confidence'', PNum 0.9)],
          PDict [(''name'', PStr ''B''), (''width'', PInt 20), (''depth'', PInt 10),
                 (''_confidence'', PNum 0.9)]])])))
   = [PList [PList [PInt 0, PInt 0], PList [PInt 100, PInt 0], PList [PInt 100, PInt 10],
             PList [PInt 0, PInt 10], PList [PInt 0, PInt 0]],
      PList [PList [PInt 30, PInt 0], PList [PInt 50, PInt 0], PList [PInt 50, PInt 10],
             PList [PInt 30, PInt 10], PList [PInt 30, PInt 0]]]
   \<and> in_rect (PList [PList [PInt 0, PInt 0], PList [PInt 100, PInt 0], PList [PInt 100, PInt 10],
             PList [PInt 0, PInt 10], PList [PInt 0, PInt 0]]) (40, 5)
   \<and> in_rect (PList [PList [PInt 30, PInt 0], PList [PInt 50, PInt 0], PList [PInt 50, PInt 10],
             PList [PInt 30, PInt 10], PList [PInt 30, PInt 0]]) (40, 5)"
  by (simp add: normalize_extraction_data_def ai_buildings_of_def dict_get_def truthy_def
      iterate_def normalize_entry_def confidence_of_def effective_confidence_def py_float_def
      CONFIDENCE_THRESHOLD_def floors_of_def floor_height_of_def
      py_truediv_def py_trunc_def footprint_of_def synth_footprint_def Let_def
      int_to_float_def float_overflow_bound_def
      in_rect_def footprint_points_def List.map_filter_simps default_name_def num_val_def)

section \<open>Properties of the extractors\<close>

subsection \<open>CAD footprint candidates\<close>

lemma collect_entities_polylines:
  "collect_entities es acc = Inr found \<Longrightarrow>
     map fst (cad_polylines found) =
       map fst (cad_polylines acc) @ map points_list (polyline_points es)"
  by (induction es acc rule: collect_entities.induct) auto

lemma collect_entities_returns:
  "\<not> list_ex old_style_polyline es \<Longrightarrow> \<exists>found. collect_entities es acc = Inr found"
  by (induction es acc rule: collect_entities.induct) auto

lemma collect_entities_raises:
  "list_ex old_style_polyline es \<Longrightarrow> collect_entities es acc = Inl AttributeError"
  by (induction es acc rule: collect_entities.induct) auto

lemma footprint_candidates_filter:
  "footprint_candidates ps coords = coords @ filter (\<lambda>v. 3 \<le> py_len v) (map fst ps)"
  by (induction ps arbitrary: coords) simp_all

lemma py_len_points_list: "py_len (points_list pts) = length pts"
  by (simp add: py_len_def points_list_def)

text \<open>
  C6 (amended). For a modelspace without old-style \<open>POLYLINE\<close> entities, the
  footprint candidates in \<open>coordinates\<close> are exactly the \<open>LWPOLYLINE\<close> polylines
  with at least three points, in modelspace order, whether closed or not.
\<close>

theorem c6_cad_candidates:
  assumes "\<not> list_ex old_style_polyline msp"
  shows "coordinates (extract_cad (Inr (layers, units, msp))) =
           map points_list (filter (\<lambda>pts. 3 \<le> length pts) (polyline_points msp))"
proof -
  from assms obtain found where found:
    "collect_entities msp \<lparr>cad_lines = [], cad_polylines = [], cad_dimensions = []\<rparr> = Inr found"
    using collect_entities_returns by blast
  from collect_entities_polylines [OF found]
  have "map fst (cad_polylines found) = map points_list (polyline_points msp)" by simp
  with found have "coordinates (extract_cad (Inr (layers, units, msp))) =
          filter (\<lambda>v. 3 \<le> py_len v) (map points_list (polyline_points msp))"
    by (simp add: extract_cad_def footprint_candidates_filter empty_result_def)
  also have "\<dots> = map points_list (filter (\<lambda>pts. 3 \<le> length pts) (polyline_points msp))"
    by (simp add: filter_map o_def py_len_points_list)
  finally show ?thesis .
qed

text \<open>
  A modelspace with a line, an open polyline of four points, a polyline of two points
  and a closed polyline of five: the two polylines with three points or more are the
  candidates.
\<close>

theorem c6_cad_candidates_witness:
  "coordinates (extract_cad (Inr ([''0'', ''WALLS''], PInt 6,
       [LINE (0, 0) (5, 0) ''0'',
        LWPOLYLINE [(0, 0), (10, 0), (10, 10), (0, 10)] False ''WALLS'',
        LWPOLYLINE [(0, 0), (5, 5)] False ''0'',
        LWPOLYLINE [(0, 0), (4, 0), (4, 3), (0, 3), (0, 0)] True ''WALLS''])))
     = [points_list [(0, 0), (10, 0), (10, 10), (0, 10)],
        points_list [(0, 0), (4, 0), (4, 3), (0, 3), (0, 0)]]"
  using c6_cad_candidates [of
      "[LINE (0, 0) (5, 0) ''0'',
        LWPOLYLINE [(0, 0), (10, 0), (10, 10), (0, 10)] False ''WALLS'',
        LWPOLYLINE [(0, 0), (5, 5)] False ''0'',
        LWPOLYLINE [(0, 0), (4, 0), (4, 3), (0, 3), (0, 0)] True ''WALLS'']"
      "[''0'', ''WALLS'']" "PInt 6"]
  by simp

text \<open>
  C6 as stated fails: the first polyline below is open (flag unset, last point different
  from the first) and has three points, and it is the footprint candidate; the second
  is closed but has two points.
\<close>

theorem c6_counterexample:
  "coordinates (extract_cad (Inr ([''0''], PInt 0,
       [LWPOLYLINE [(0, 0), (10, 0), (10, 10)] False ''0'',
        LWPOLYLINE [(0, 0), (5, 5)] True ''0''])))
     = [points_list [(0, 0), (10, 0), (10, 10)]] \<and>
   \<not> polyline_closed [(0, 0), (10, 0), (10, 10)] False"
  by (simp add: extract_cad_def empty_result_def points_list_def py_len_def polyline_closed_def)

text \<open>
  An old-style \<open>POLYLINE\<close> entity anywhere in the modelspace ends the extraction:
  \<open>get_points\<close> is missing, the exception is caught, and the result has no footprint
  candidate at all, the confidence 0.0 and the error message, whatever other polylines
  the modelspace holds.
\<close>

lemma old_style_polyline_no_candidates:
  assumes "list_ex old_style_polyline msp"
  shows "coordinates (extract_cad (Inr (layers, units, msp))) = [] \<and>
         confidence (extract_cad (Inr (layers, units, msp))) = 0 \<and>
         errors (extract_cad (Inr (layers, units, msp)))
           = [''CAD extraction error: '' @ no_get_points]"
  using collect_entities_raises [OF assms]
  by (simp add: extract_cad_def empty_result_def)

lemma old_style_polyline_example:
  "coordinates (extract_cad (Inr ([''0''], PInt 0,
       [LWPOLYLINE [(0, 0), (10, 0), (10, 10), (0, 0)] True ''0'',
        POLYLINE [(0, 0), (4, 0), (4, 3), (0, 0)] True ''0''])))
     = []"
  by (simp add: extract_cad_def empty_result_def)

subsection \<open>PDF page order\<close>

lemma pdf_pages_images:
  "images (pdf_pages classify n pages r) = images r @ map snd pages"
  by (induction classify n pages r rule: pdf_pages.induct) simp_all

lemma pdf_pages_classifications:
  "page_classifications (pdf_pages classify n pages r) =
     page_classifications r @
       map (\<lambda>x. classify (snd (snd x)) (fst (snd x)) (fst x)) (enumerate n pages)"
  by (induction classify n pages r rule: pdf_pages.induct) simp_all

lemma enumerate_snd_nth:
  "x \<in> set (enumerate 0 xs) \<Longrightarrow> snd x = xs ! fst x"
  by (auto simp: in_set_enumerate_eq)

lemma map_enumerate_zip:
  assumes "length ys = length xs"
  shows "map (\<lambda>x. (ys ! fst x, snd x)) (enumerate 0 xs) = zip ys xs"
  using assms by (intro nth_equalityI) (simp_all add: nth_enumerate_eq)

lemma extract_pdf_images:
  "images (extract_pdf classify (Inr (meta, pages))) =
     map (\<lambda>x. page_images_of pages ! fst x)
       (sort_key page_sort_key (enumerate 0 (page_classifications_of classify pages)))"
  by (simp add: extract_pdf_def Let_def pdf_pages_images pdf_pages_classifications
      empty_result_def page_images_of_def page_classifications_of_def)

lemma extract_pdf_classifications:
  "page_classifications (extract_pdf classify (Inr (meta, pages))) =
     map snd (sort_key page_sort_key (enumerate 0 (page_classifications_of classify pages)))"
  by (simp add: extract_pdf_def Let_def pdf_pages_images pdf_pages_classifications
      empty_result_def page_images_of_def page_classifications_of_def)

lemma lex_key_order: "cls_key c \<le> cls_key d \<longleftrightarrow> page_order c d"
  by (auto simp: cls_key_def page_order_def less_eq_prod_def)

text \<open>
  C5. After \<open>extract_pdf\<close> on a document of any number of pages, \<open>images\<close> and
  \<open>page_classifications\<close> have one entry per page and are the per-page originals
  under one and the same permutation of the page indices; the classifications are
  ordered by ascending type priority and, within a priority, by descending confidence;
  and the pages that agree on both keys keep their original order.
\<close>

theorem c5_pdf_reorder:
  fixes classify meta pages
  defines "r \<equiv> extract_pdf classify (Inr (meta, pages))"
    and "imgs \<equiv> page_images_of pages"
    and "cls \<equiv> page_classifications_of classify pages"
  shows "type_priority_get ''floor_plan'' < type_priority_get ''elevation'' \<and>
         type_priority_get ''elevation'' < type_priority_get ''schedule'' \<and>
         type_priority_get ''schedule'' < type_priority_get ''text'' \<and>
         length (images r) = length pages \<and>
         length (page_classifications r) = length pages \<and>
         (\<exists>perm. mset perm = mset [0..<length pages] \<and>
                 images r = map (\<lambda>i. imgs ! i) perm \<and>
                 page_classifications r = map (\<lambda>i. cls ! i) perm) \<and>
         sorted_wrt page_order (page_classifications r) \<and>
         (\<forall>k. filter (\<lambda>x. cls_key (snd x) = k) (zip (images r) (page_classifications r)) =
              filter (\<lambda>x. cls_key (snd x) = k) (zip imgs cls))"
proof -
  let ?sp = "sort_key page_sort_key (enumerate 0 cls)"
  have len: "length cls = length pages" "length imgs = length pages"
    by (simp_all add: cls_def imgs_def page_classifications_of_def page_images_of_def)
  have ri: "images r = map (\<lambda>x. imgs ! fst x) ?sp"
    unfolding r_def imgs_def cls_def by (rule extract_pdf_images)
  have rc: "page_classifications r = map snd ?sp"
    unfolding r_def cls_def by (rule extract_pdf_classifications)
  have l1: "length (images r) = length pages" using ri len by simp
  have l2: "length (page_classifications r) = length pages" using rc len by simp
  have perm: "mset (map fst ?sp) = mset [0..<length pages]"
  proof -
    have e: "map fst (enumerate 0 cls) = [0..<length pages]"
      using len by (simp add: map_fst_enumerate)
    have "mset (map fst ?sp) = mset (map fst (enumerate 0 cls))"
      by (simp only: mset_map mset_sort)
    also have "\<dots> = mset [0..<length pages]" by (simp only: e)
    finally show ?thesis .
  qed
  have rc': "page_classifications r = map (\<lambda>i. cls ! i) (map fst ?sp)"
    unfolding rc by (auto simp: enumerate_snd_nth)
  have ri': "images r = map (\<lambda>i. imgs ! i) (map fst ?sp)"
    unfolding ri by simp
  have srt: "sorted_wrt page_order (page_classifications r)"
  proof -
    have "sorted (map page_sort_key ?sp)" by (rule sorted_sort_key)
    moreover have "map page_sort_key ?sp = map cls_key (map snd ?sp)"
      by (simp add: page_sort_key_def)
    ultimately have "sorted (map cls_key (map snd ?sp))"
      by (simp only:)
    then show ?thesis
      unfolding rc by (simp add: sorted_map sorted_wrt_map lex_key_order [abs_def])
  qed
  have stab: "filter (\<lambda>x. cls_key (snd x) = k) (zip (images r) (page_classifications r)) =
              filter (\<lambda>x. cls_key (snd x) = k) (zip imgs cls)" for k
  proof -
    let ?g = "\<lambda>x. (imgs ! fst x, snd x)"
    have z: "zip (images r) (page_classifications r) = map ?g ?sp"
      unfolding ri rc by (simp add: zip_map_map zip_same_conv_map)
    have "filter (\<lambda>x. cls_key (snd x) = k) (map ?g ?sp) =
            map ?g (filter (\<lambda>x. page_sort_key x = k) ?sp)"
      by (simp add: filter_map o_def page_sort_key_def)
    also have "\<dots> = map ?g (filter (\<lambda>x. page_sort_key x = k) (enumerate 0 cls))"
      by (simp only: sort_key_stable)
    also have "\<dots> = filter (\<lambda>x. cls_key (snd x) = k) (map ?g (enumerate 0 cls))"
      by (simp add: filter_map o_def page_sort_key_def)
    also have "map ?g (enumerate 0 cls) = zip imgs cls"
      using len by (intro map_enumerate_zip) simp
    finally show ?thesis unfolding z .
  qed
  have prio: "type_priority_get ''floor_plan'' < type_priority_get ''elevation''"
    "type_priority_get ''elevation'' < type_priority_get ''schedule''"
    "type_priority_get ''schedule'' < type_priority_get ''text''"
    by (simp_all add: type_priority_get_def type_priority_def)
  from prio l1 l2 perm ri' rc' srt stab show ?thesis by blast
qed

section \<open>Properties of the geometry generator\<close>

subsection \<open>Roof faces\<close>

lemma gabled_roof_faces:
  assumes "fp \<noteq> []"
  shows "\<exists>m. gabled_roof fp h = Some m \<and> length (faces m) = 6 \<and> length (vertices m) = 6
             \<and> faces_valid m"
  using assms by (simp add: gabled_roof_def Let_def faces_valid_def)

lemma hipped_roof_faces:
  assumes "fp \<noteq> []"
  shows "\<exists>m. hipped_roof fp h = Some m \<and> length (faces m) = 4 \<and> length (vertices m) = 5
             \<and> faces_valid m"
  using assms by (simp add: hipped_roof_def Let_def faces_valid_def)

text \<open>
  C4. For every footprint (at least one vertex) and every height: roof type
  \<open>flat\<close> gives no roof mesh; \<open>gabled\<close> gives a mesh of exactly 6 triangular faces
  and \<open>hipped\<close> one of exactly 4, whatever the size or shape of the footprint, each
  face naming vertices of the mesh; any other roof type gives no roof mesh, as
  \<open>flat\<close> does.
\<close>

theorem c4_roof_faces:
  assumes "fp \<noteq> []"
  shows "generate_roof fp h ''flat'' = None \<and>
         (\<exists>m. generate_roof fp h ''gabled'' = Some m \<and> length (faces m) = 6 \<and> faces_valid m) \<and>
         (\<exists>m. generate_roof fp h ''hipped'' = Some m \<and> length (faces m) = 4 \<and> faces_valid m) \<and>
         (rt \<noteq> ''flat'' \<and> rt \<noteq> ''gabled'' \<and> rt \<noteq> ''hipped'' \<longrightarrow> generate_roof fp h rt = None)"
  using gabled_roof_faces [OF assms, of h] hipped_roof_faces [OF assms, of h]
  by (auto simp: generate_roof_def)

text \<open>The footprint of the repository's tests, and the roof type \<open>mansard\<close>.\<close>

theorem c4_roof_faces_witness:
  "generate_roof [(0, 0), (20, 0), (20, 15), (0, 15), (0, 0)] 10 ''flat'' = None \<and>
   (\<exists>m. generate_roof [(0, 0), (20, 0), (20, 15), (0, 15), (0, 0)] 10 ''gabled'' = Some m
       \<and> length (faces m) = 6 \<and> faces_valid m) \<and>
   (\<exists>m. generate_roof [(0, 0), (20, 0), (20, 15), (0, 15), (0, 0)] 10 ''hipped'' = Some m
       \<and> length (faces m) = 4 \<and> faces_valid m) \<and>
   generate_roof [(0, 0), (20, 0), (20, 15), (0, 15), (0, 0)] 10 ''mansard'' = None"
  using c4_roof_faces [of "[(0, 0), (20, 0), (20, 15), (0, 15), (0, 0)]" 10 "''mansard''"]
  by simp

lemma gabled_roof_example:
  "gabled_roof [(0, 0), (20, 0), (20, 15), (0, 15), (0, 0)] 10 =
     Some \<lparr>vertices = [(0, 0, 10), (20, 0, 10), (20, 15, 10), (0, 15, 10), (10, 0, 16), (10, 15, 16)],
           faces = [(0, 1, 4), (1, 2, 5), (1, 5, 4), (2, 3, 5), (3, 0, 4), (3, 4, 5)]\<rparr>"
  by (simp add: gabled_roof_def min_pt_def max_pt_def Let_def)

subsection \<open>Zero floors\<close>

text \<open>
  C9. For a \<open>building_data\<close> with a footprint whose \<open>floors\<close> is 0,
  \<open>generate_building\<close> raises \<open>ZeroDivisionError\<close>: whatever the geometry steps
  are, none of them is reached, and a supplied \<open>floor_height\<close> does not help.
\<close>

theorem c9_zero_floors:
  assumes "bd_footprint bd = Some fp" and "bd_floors bd = Some 0"
  shows "generate_building steps bd = Inl ZeroDivisionError"
  using assms by (simp add: generate_building_def)

text \<open>The dict of the repository's scene test with \<open>floors\<close> set to 0.\<close>

theorem c9_zero_floors_witness:
  "generate_building gp_floor_height
     \<lparr>bd_footprint = Some [(0, 0), (20, 0), (20, 15), (0, 15), (0, 0)], bd_height = Some 10,
      bd_floors = Some 0, bd_floor_height = Some 3.33, bd_roof_type = Some ''flat'',
      bd_facade = None, bd_windows = True, bd_balconies = False\<rparr> = Inl ZeroDivisionError"
  by (rule c9_zero_floors [where fp = "[(0, 0), (20, 0), (20, 15), (0, 15), (0, 0)]"]) simp_all

subsection \<open>Balconies\<close>

text \<open>Edge lengths, and what the search for the longest edge finds.\<close>

lemma edge_length_nonneg: "0 \<le> edge_length p q"
  by (simp add: edge_length_def)

lemma edge_length_zero_iff: "edge_length p q = 0 \<longleftrightarrow> p = q"
  by (auto simp: edge_length_def sum_power2_eq_zero_iff prod_eq_iff)

lemma longest_edge_loop_append:
  "longest_edge_loop pts (xs @ ys) best = longest_edge_loop pts ys (longest_edge_loop pts xs best)"
  by (induction xs arbitrary: best) (simp_all add: Let_def)

lemma longest_edge_loop_upt:
  fixes pts :: "point2 list"
  defines "len \<equiv> \<lambda>k. edge_length (pts ! k) (pts ! (k + 1))"
  defines "res \<equiv> \<lambda>m. longest_edge_loop pts [0..<m] (0, 0)"
  shows "(\<forall>k<m. len k \<le> snd (res m)) \<and>
         ((snd (res m) = 0 \<and> fst (res m) = 0) \<or>
          (fst (res m) < m \<and> snd (res m) = len (fst (res m)) \<and> 0 < snd (res m) \<and>
           (\<forall>k<fst (res m). len k < snd (res m))))"
proof (induction m)
  case 0
  show ?case by (simp add: res_def)
next
  case (Suc m)
  have step: "res (Suc m) = (if len m > snd (res m) then (m, len m) else res m)"
    by (simp add: res_def len_def longest_edge_loop_append Let_def)
  show ?case
  proof (cases "len m > snd (res m)")
    case True
    have nn: "0 \<le> snd (res m)" using Suc.IH by auto
    from True step have r: "res (Suc m) = (m, len m)" by simp
    have "\<forall>k<Suc m. len k \<le> len m"
      using Suc.IH True by (auto simp: less_Suc_eq intro: less_imp_le order_trans)
    moreover have "\<forall>k<m. len k < len m"
      using Suc.IH True by (auto intro: le_less_trans)
    moreover have "0 < len m" using True nn by linarith
    ultimately show ?thesis unfolding r by simp
  next
    case False
    with step have r: "res (Suc m) = res m" by simp
    from False have "len m \<le> snd (res m)" by simp
    with Suc.IH show ?thesis unfolding r by (auto simp: less_Suc_eq)
  qed
qed

lemma adjacent_distinct:
  assumes "p \<in> set fp" and "q \<in> set fp" and "p \<noteq> q"
  shows "\<exists>k. k + 1 < length fp \<and> fp ! k \<noteq> fp ! (k + 1)"
proof (rule ccontr)
  assume "\<not> ?thesis"
  then have adj: "\<And>k. k + 1 < length fp \<Longrightarrow> fp ! k = fp ! (k + 1)" by blast
  have all: "i < length fp \<Longrightarrow> fp ! i = fp ! 0" for i
  proof (induction i)
    case 0
    show ?case by simp
  next
    case (Suc i)
    then show ?case using adj [of i] by simp
  qed
  from assms(1) obtain i where "i < length fp" "fp ! i = p" by (auto simp: in_set_conv_nth)
  moreover from assms(2) obtain j where "j < length fp" "fp ! j = q" by (auto simp: in_set_conv_nth)
  ultimately have "p = q" using all by metis
  with assms(3) show False by simp
qed

lemma longest_edge_spec:
  assumes "p \<in> set fp" and "q \<in> set fp" and "p \<noteq> q"
  shows "fst (longest_edge fp) + 1 < length fp \<and>
         snd (longest_edge fp) =
           edge_length (fp ! fst (longest_edge fp)) (fp ! (fst (longest_edge fp) + 1)) \<and>
         0 < snd (longest_edge fp) \<and>
         (\<forall>k. k + 1 < length fp \<longrightarrow>
              edge_length (fp ! k) (fp ! (k + 1)) \<le> snd (longest_edge fp)) \<and>
         (\<forall>k<fst (longest_edge fp).
              edge_length (fp ! k) (fp ! (k + 1)) < snd (longest_edge fp))"
proof -
  let ?m = "length fp - 1"
  note inv = longest_edge_loop_upt [of ?m fp, folded longest_edge_def]
  from adjacent_distinct [OF assms] obtain k where k: "k + 1 < length fp" "fp ! k \<noteq> fp ! (k + 1)"
    by blast
  then have "0 < edge_length (fp ! k) (fp ! (k + 1))"
    using edge_length_nonneg [of "fp ! k" "fp ! (k + 1)"] edge_length_zero_iff [of "fp ! k" "fp ! (k + 1)"]
    by linarith
  moreover from k have "k < ?m" by simp
  ultimately have pos: "0 < snd (longest_edge fp)" using inv by force
  with inv have "fst (longest_edge fp) < ?m"
    and "snd (longest_edge fp) =
           edge_length (fp ! fst (longest_edge fp)) (fp ! (fst (longest_edge fp) + 1))"
    and "\<forall>k<fst (longest_edge fp). edge_length (fp ! k) (fp ! (k + 1)) < snd (longest_edge fp)"
    by auto
  moreover have "\<forall>k. k + 1 < length fp \<longrightarrow>
              edge_length (fp ! k) (fp ! (k + 1)) \<le> snd (longest_edge fp)"
    using inv by (auto simp: less_diff_conv)
  ultimately show ?thesis using pos by (auto simp: less_diff_conv)
qed

lemma concat_pairs_length:
  "length (concat (map (\<lambda>x. [a x, b x]) xs)) = 2 * length xs"
  by (induction xs) simp_all

lemma concat_pairs_nth:
  "j < length xs \<Longrightarrow>
     concat (map (\<lambda>x. [a x, b x]) xs) ! (2 * j) = a (xs ! j) \<and>
     concat (map (\<lambda>x. [a x, b x]) xs) ! (2 * j + 1) = b (xs ! j)"
proof (induction xs arbitrary: j)
  case Nil
  then show ?case by simp
next
  case (Cons x xs)
  show ?case
  proof (cases j)
    case 0
    then show ?thesis by simp
  next
    case (Suc i)
    with Cons.prems have "i < length xs" by simp
    from Cons.IH [OF this] Suc show ?thesis by simp
  qed
qed

text \<open>The result once the longest edge is known and has positive length.\<close>

lemma generate_balconies_unfold:
  assumes "\<not> length fp < 2"
    and "longest_edge fp = (i, L)"
    and "fp ! i = s" and "fp ! (i + 1) = e"
    and "edge_length s e = L" and "L \<noteq> 0"
  shows "generate_balconies fp F fh =
     Some (concat (map (\<lambda>n.
       [\<lparr>extents = (min 2.5 (L * 0.3), 1.2, 0.15),
         rotation = edge_direction s e,
         translation = (fst (midpoint2 s e) + fst (left_normal s e) * 0.6,
                        snd (midpoint2 s e) + snd (left_normal s e) * 0.6,
                        real_of_int n * fh)\<rparr>,
        \<lparr>extents = (min 2.5 (L * 0.3), 0.05, 1),
         rotation = edge_direction s e,
         translation = (fst (midpoint2 s e) + fst (left_normal s e) * 1.2,
                        snd (midpoint2 s e) + snd (left_normal s e) * 1.2,
                        real_of_int n * fh + 0.5)\<rparr>]) [1..F - 1]))"
proof -
  from assms(5,6) have "sqrt ((fst e - fst s)\<^sup>2 + (snd e - snd s)\<^sup>2) \<noteq> 0"
    by (simp add: edge_length_def)
  then have ne: "\<not> (fst e = fst s \<and> snd e = snd s)"
    by auto
  from assms ne show ?thesis
    by (simp add: generate_balconies_def Let_def edge_length_def edge_direction_def
        left_normal_def midpoint2_def mult.commute)
qed

text \<open>
  C7 (amended). For a footprint with two distinct vertices and a floor count \<open>F \<ge> 1\<close>,
  \<open>_generate_balconies\<close> returns exactly \<open>2 * (F - 1)\<close> boxes. With \<open>i\<close> the first
  edge of greatest length (which is positive), floor \<open>n\<close> above the ground floor
  (\<open>1 \<le> n < F\<close>) gets a slab of width \<open>min(2.5, 0.3 * length)\<close>, depth 1.2 and
  thickness 0.15 at height \<open>n * floor_height\<close>, centred 0.6 from the edge midpoint
  along the edge's left-hand normal, and then a railing of the same width, 0.05 deep
  and 1 tall, centred 1.2 from the midpoint along the same normal and 0.5 higher. Both
  are turned to the direction of the edge.
\<close>

theorem c7_balconies:
  assumes "p \<in> set fp" and "q \<in> set fp" and "p \<noteq> q" and "1 \<le> F"
  shows "\<exists>bs i. generate_balconies fp F fh = Some bs \<and> int (length bs) = 2 * (F - 1) \<and>
           i + 1 < length fp \<and>
           0 < edge_length (fp ! i) (fp ! (i + 1)) \<and>
           (\<forall>k. k + 1 < length fp \<longrightarrow>
                edge_length (fp ! k) (fp ! (k + 1)) \<le> edge_length (fp ! i) (fp ! (i + 1))) \<and>
           (\<forall>k<i. edge_length (fp ! k) (fp ! (k + 1)) < edge_length (fp ! i) (fp ! (i + 1))) \<and>
           (\<forall>n. 1 \<le> n \<and> n < F \<longrightarrow>
              bs ! nat (2 * (n - 1)) =
                \<lparr>extents = (min 2.5 (edge_length (fp ! i) (fp ! (i + 1)) * 0.3), 1.2, 0.15),
                 rotation = edge_direction (fp ! i) (fp ! (i + 1)),
                 translation =
                   (fst (midpoint2 (fp ! i) (fp ! (i + 1)))
                      + fst (left_normal (fp ! i) (fp ! (i + 1))) * 0.6,
                    snd (midpoint2 (fp ! i) (fp ! (i + 1)))
                      + snd (left_normal (fp ! i) (fp ! (i + 1))) * 0.6,
                    real_of_int n * fh)\<rparr> \<and>
              bs ! nat (2 * (n - 1) + 1) =
                \<lparr>extents = (min 2.5 (edge_length (fp ! i) (fp ! (i + 1)) * 0.3), 0.05, 1),
                 rotation = edge_direction (fp ! i) (fp ! (i + 1)),
                 translation =
                   (fst (midpoint2 (fp ! i) (fp ! (i + 1)))
                      + fst (left_normal (fp ! i) (fp ! (i + 1))) * 1.2,
                    snd (midpoint2 (fp ! i) (fp ! (i + 1)))
                      + snd (left_normal (fp ! i) (fp ! (i + 1))) * 1.2,
                    real_of_int n * fh + 0.5)\<rparr>)"
proof -
  define i where "i = fst (longest_edge fp)"
  define s where "s = fp ! i"
  define e where "e = fp ! (i + 1)"
  define L where "L = edge_length s e"
  note spec = longest_edge_spec [OF assms(1-3), folded i_def, folded s_def e_def, folded L_def]
  from spec have i_lt: "i + 1 < length fp" and sndL: "snd (longest_edge fp) = L" and Lpos: "0 < L"
    by auto
  from spec have maxL: "\<forall>k. k + 1 < length fp \<longrightarrow> edge_length (fp ! k) (fp ! (k + 1)) \<le> L"
    and firstL: "\<forall>k<i. edge_length (fp ! k) (fp ! (k + 1)) < L"
    by auto
  have fsti: "fst (longest_edge fp) = i" by (simp add: i_def)
  have nrm: "sqrt ((fst e - fst s)\<^sup>2 + (snd e - snd s)\<^sup>2) = L"
    by (simp add: L_def edge_length_def)
  have len2: "\<not> length fp < 2" using i_lt by simp
  define a where "a = (\<lambda>n::int.
      \<lparr>extents = (min 2.5 (L * 0.3), 1.2, 0.15),
       rotation = edge_direction s e,
       translation = (fst (midpoint2 s e) + fst (left_normal s e) * 0.6,
                      snd (midpoint2 s e) + snd (left_normal s e) * 0.6,
                      real_of_int n * fh)\<rparr>)"
  define b where "b = (\<lambda>n::int.
      \<lparr>extents = (min 2.5 (L * 0.3), 0.05, 1),
       rotation = edge_direction s e,
       translation = (fst (midpoint2 s e) + fst (left_normal s e) * 1.2,
                      snd (midpoint2 s e) + snd (left_normal s e) * 1.2,
                      real_of_int n * fh + 0.5)\<rparr>)"
  have le: "longest_edge fp = (i, L)"
    using fsti sndL by (simp add: prod_eq_iff)
  have gb: "generate_balconies fp F fh = Some (concat (map (\<lambda>n. [a n, b n]) [1..F - 1]))"
    unfolding a_def b_def
    by (rule generate_balconies_unfold [OF len2 le s_def [symmetric] e_def [symmetric]
          L_def [symmetric]]) (use Lpos in simp)
  have lenbs: "int (length (concat (map (\<lambda>n. [a n, b n]) [1..F - 1]))) = 2 * (F - 1)"
    using assms(4) by (simp add: concat_pairs_length)
  have nth: "concat (map (\<lambda>n. [a n, b n]) [1..F - 1]) ! nat (2 * (n - 1)) = a n \<and>
             concat (map (\<lambda>n. [a n, b n]) [1..F - 1]) ! nat (2 * (n - 1) + 1) = b n"
    if n: "1 \<le> n \<and> n < F" for n
  proof -
    let ?j = "nat (n - 1)"
    from n have j: "?j < length [1..F - 1]" by simp
    from n have nthj: "[1..F - 1] ! ?j = n" by (simp add: nth_upto)
    have e1: "nat (2 * (n - 1)) = 2 * ?j" by (simp add: nat_mult_distrib)
    from n have "nat (2 * (n - 1) + 1) = nat (2 * (n - 1)) + nat 1"
      by (intro nat_add_distrib) simp_all
    with e1 have e2: "nat (2 * (n - 1) + 1) = 2 * ?j + 1" by simp
    from concat_pairs_nth [OF j, of a b] show ?thesis
      unfolding e1 e2 nthj .
  qed
  show ?thesis
    apply (rule exI [of _ "concat (map (\<lambda>n. [a n, b n]) [1..F - 1])"])
    apply (rule exI [of _ i])
    using gb lenbs i_lt Lpos maxL firstL nth
    unfolding a_def b_def L_def s_def e_def
    by simp
qed


text \<open>The footprint of the repository's tests, three floors.\<close>

lemma sqrt_400: "sqrt 400 = 20"
  using real_sqrt_abs [of 20] by simp

lemma sqrt_225: "sqrt 225 = 15"
  using real_sqrt_abs [of 15] by simp

lemma longest_edge_rectangle:
  "longest_edge [(0, 0), (20, 0), (20, 15), (0, 15), (0, 0)] = (0, 20)"
  by (simp add: longest_edge_def edge_length_def upt_rec_numeral Let_def sqrt_400 sqrt_225)

lemma upto_1_2: "[1..2] = [1, 2::int]"
  by (simp add: upto.simps)

text \<open>The count asserted by the repository's test \<open>test_generate_balconies\<close>.\<close>

theorem c7_balconies_witness:
  "\<exists>bs. generate_balconies [(0, 0), (20, 0), (20, 15), (0, 15), (0, 0)] 3 3.33 = Some bs \<and>
        length bs = 4"
proof -
  have "(0, 0) \<in> set [(0, 0), (20, 0), (20, 15), (0, 15), (0::real, 0::real)]"
    and "(20, 0) \<in> set [(0, 0), (20, 0), (20, 15), (0, 15), (0::real, 0::real)]"
    and "(0::real, 0::real) \<noteq> (20, 0)" and "(1::int) \<le> 3"
    by simp_all
  from c7_balconies [OF this, of "3.33"] show ?thesis by auto
qed

text \<open>
  C7 as stated fails in the direction of the offset. The test footprint runs
  counter-clockwise, so the left-hand normal of its longest edge, from \<open>(0, 0)\<close> to
  \<open>(20, 0)\<close>, is \<open>(0, 1)\<close> and points into the footprint: the slabs are centred at
  \<open>(10, 0.6)\<close> and the railings at \<open>(10, 1.2)\<close>, both inside the footprint, not
  outward of it.
\<close>

theorem c7_counterexample:
  "generate_balconies [(0, 0), (20, 0), (20, 15), (0, 15), (0, 0)] 3 3 =
     Some [\<lparr>extents = (2.5, 1.2, 0.15), rotation = (1, 0), translation = (10, 0.6, 3)\<rparr>,
           \<lparr>extents = (2.5, 0.05, 1), rotation = (1, 0), translation = (10, 1.2, 3.5)\<rparr>,
           \<lparr>extents = (2.5, 1.2, 0.15), rotation = (1, 0), translation = (10, 0.6, 6)\<rparr>,
           \<lparr>extents = (2.5, 0.05, 1), rotation = (1, 0), translation = (10, 1.2, 6.5)\<rparr>] \<and>
   inside_polygon [(0, 0), (20, 0), (20, 15), (0, 15), (0, 0)] (10, 0.6) \<and>
   inside_polygon [(0, 0), (20, 0), (20, 15), (0, 15), (0, 0)] (10, 1.2)"
  by (simp add: generate_balconies_def longest_edge_rectangle Let_def sqrt_400 upto_1_2
      inside_polygon_def crosses_def)

section \<open>Properties of the polling loop\<close>

text \<open>The status the loop computes, in terms of the status text of the response.\<close>

lemma status_of_text:
  "status_of str_upper r =
     (case status_text r of None \<Rightarrow> Inl AttributeError | Some s \<Rightarrow> Inr (str_upper s))"
  by (simp add: status_of_def status_text_def dict_get_def split: pyval.splits option.splits)

text \<open>Every check either fails to report, or reports a terminal status, or is pending.\<close>

lemma check_cases:
  "(\<exists>e. check_error c = Some e) \<or>
   (\<exists>r. c = Inr r \<and> reports str_upper c ''SUCCEEDED'') \<or>
   (\<exists>r. c = Inr r \<and> (reports str_upper c ''FAILED'' \<or> reports str_upper c ''EXPIRED'')) \<or>
   pending str_upper c"
proof (cases c)
  case (Inl e)
  then show ?thesis by (simp add: check_error_def)
next
  case (Inr r)
  then show ?thesis
    by (cases "status_text r") (auto simp: check_error_def reports_def pending_def)
qed

lemma check_error_step:
  assumes "check_error (get_fn k) = Some e" and "elapsed < timeout"
  shows "poll_loop str_upper get_fn timeout poll_interval k elapsed = Some (Inl (Raised e))"
  using assms
  by (subst poll_loop.simps)
     (auto simp: check_error_def status_of_text split: sum.splits option.splits)

lemma succeeded_step:
  assumes "get_fn k = Inr r" and "reports str_upper (get_fn k) ''SUCCEEDED''"
    and "elapsed < timeout"
  shows "poll_loop str_upper get_fn timeout poll_interval k elapsed = Some (Inr r)"
  using assms
  by (subst poll_loop.simps) (auto simp: reports_def status_of_text split: option.splits)

lemma failed_step:
  assumes "get_fn k = Inr r"
    and "reports str_upper (get_fn k) ''FAILED'' \<or> reports str_upper (get_fn k) ''EXPIRED''"
    and "elapsed < timeout"
  shows "poll_loop str_upper get_fn timeout poll_interval k elapsed
           = Some (Inl (RuntimeError (error_msg_of r)))"
  using assms
  by (subst poll_loop.simps) (auto simp: reports_def status_of_text split: option.splits)

lemma pending_step:
  assumes "pending str_upper (get_fn k)" and "elapsed < timeout"
  shows "poll_loop str_upper get_fn timeout poll_interval k elapsed
           = poll_loop str_upper get_fn timeout poll_interval (Suc k) (elapsed + poll_interval)"
  using assms
  by (subst poll_loop.simps)
     (auto simp: pending_def status_of_text split: sum.splits option.splits)

lemma timeout_step:
  assumes "\<not> elapsed < timeout"
  shows "poll_loop str_upper get_fn timeout poll_interval k elapsed = Some (Inl TimeoutError)"
  using assms by (subst poll_loop.simps) simp

text \<open>
  The loop from check \<open>k0\<close> on, when every earlier check was pending: check \<open>k\<close>
  happens at \<open>elapsed = k * poll_interval\<close>.
\<close>

lemma poll_loop_outcome:
  assumes pi: "0 < poll_interval"
    and before: "\<forall>j<k0. pending str_upper (get_fn j)"
  shows "\<exists>out. poll_loop str_upper get_fn timeout poll_interval k0 (int k0 * poll_interval)
                  = Some out \<and>
           ((\<exists>k. int k * poll_interval < timeout \<and> (\<forall>j<k. pending str_upper (get_fn j)) \<and>
                 ((\<exists>r. get_fn k = Inr r \<and> reports str_upper (get_fn k) ''SUCCEEDED'' \<and>
                       out = Inr r) \<or>
                  (\<exists>r. get_fn k = Inr r \<and>
                       (reports str_upper (get_fn k) ''FAILED'' \<or>
                        reports str_upper (get_fn k) ''EXPIRED'') \<and>
                       out = Inl (RuntimeError (error_msg_of r))) \<or>
                  (\<exists>e. check_error (get_fn k) = Some e \<and> out = Inl (Raised e)))) \<or>
            ((\<forall>k. int k * poll_interval < timeout \<longrightarrow> pending str_upper (get_fn k)) \<and>
             out = Inl TimeoutError))"
  using before
proof (induction "nat (timeout - int k0 * poll_interval)" arbitrary: k0 rule: less_induct)
  case less
  show ?case
  proof (cases "int k0 * poll_interval < timeout")
    case False
    have "pending str_upper (get_fn k)" if "int k * poll_interval < timeout" for k
    proof -
      have "k < k0"
      proof (rule ccontr)
        assume "\<not> k < k0"
        then have "int k0 \<le> int k" by simp
        then have "int k0 * poll_interval \<le> int k * poll_interval"
          using pi by (intro mult_right_mono) simp_all
        with False that show False by linarith
      qed
      with less.prems show ?thesis by blast
    qed
    with timeout_step [OF False] show ?thesis by simp
  next
    case True
    consider (error) e where "check_error (get_fn k0) = Some e"
      | (succeeded) r where "get_fn k0 = Inr r" "reports str_upper (get_fn k0) ''SUCCEEDED''"
      | (failed) r where "get_fn k0 = Inr r"
          "reports str_upper (get_fn k0) ''FAILED'' \<or> reports str_upper (get_fn k0) ''EXPIRED''"
      | (pending) "pending str_upper (get_fn k0)"
      using check_cases [of "get_fn k0" str_upper] by blast
    then show ?thesis
    proof cases
      case (error e)
      have "poll_loop str_upper get_fn timeout poll_interval k0 (int k0 * poll_interval)
              = Some (Inl (Raised e))"
        using error True by (rule check_error_step)
      with error True less.prems show ?thesis by blast
    next
      case (succeeded r)
      have "poll_loop str_upper get_fn timeout poll_interval k0 (int k0 * poll_interval)
              = Some (Inr r)"
        using succeeded True by (rule succeeded_step)
      with succeeded True less.prems show ?thesis by blast
    next
      case (failed r)
      have "poll_loop str_upper get_fn timeout poll_interval k0 (int k0 * poll_interval)
              = Some (Inl (RuntimeError (error_msg_of r)))"
        using failed True by (rule failed_step)
      with failed True less.prems show ?thesis by blast
    next
      case pending
      have "poll_loop str_upper get_fn timeout poll_interval k0 (int k0 * poll_interval)
              = poll_loop str_upper get_fn timeout poll_interval (Suc k0)
                  (int k0 * poll_interval + poll_interval)"
        using pending True by (rule pending_step)
      then
      have step: "poll_loop str_upper get_fn timeout poll_interval k0 (int k0 * poll_interval)
              = poll_loop str_upper get_fn timeout poll_interval (Suc k0)
                  (int (Suc k0) * poll_interval)"
        by (simp add: algebra_simps)
      have dec: "nat (timeout - int (Suc k0) * poll_interval) < nat (timeout - int k0 * poll_interval)"
        using True pi by (simp add: algebra_simps)
      have "\<forall>j<Suc k0. pending str_upper (get_fn j)"
        using less.prems pending by (auto simp: less_Suc_eq)
      from less.hyps [OF dec this] show ?thesis unfolding step .
    qed
  qed
qed

text \<open>
  C8 (amended). With a positive poll interval \<open>poll_until_done\<close> terminates. Check
  \<open>k\<close> is made at \<open>k * poll_interval\<close> seconds, and checks are made as long as the
  earlier ones were pending and that time is below \<open>timeout\<close>. The call ends at the
  first check that is not pending, in one of three ways: it returns that check's
  response when its status field reads \<open>SUCCEEDED\<close> in upper case; it raises
  \<open>RuntimeError\<close> when the field reads \<open>FAILED\<close> or \<open>EXPIRED\<close>; the exception
  passes through when the request raised or the response has no status text. When
  every check made before the timeout is pending, it raises \<open>TimeoutError\<close>.
\<close>

theorem c8_poll_outcomes:
  assumes "0 < poll_interval"
  shows "\<exists>out. poll_until_done str_upper get_task get_image_task timeout poll_interval task_type
                  = Some out \<and>
           ((\<exists>k. int k * poll_interval < timeout \<and>
                 (\<forall>j<k. pending str_upper
                           (if task_type = ''text'' then get_task j else get_image_task j)) \<and>
                 ((\<exists>r. (if task_type = ''text'' then get_task k else get_image_task k) = Inr r \<and>
                       reports str_upper
                         (if task_type = ''text'' then get_task k else get_image_task k)
                         ''SUCCEEDED'' \<and>
                       out = Inr r) \<or>
                  (\<exists>r. (if task_type = ''text'' then get_task k else get_image_task k) = Inr r \<and>
                       (reports str_upper
                          (if task_type = ''text'' then get_task k else get_image_task k)
                          ''FAILED'' \<or>
                        reports str_upper
                          (if task_type = ''text'' then get_task k else get_image_task k)
                          ''EXPIRED'') \<and>
                       out = Inl (RuntimeError (error_msg_of r))) \<or>
                  (\<exists>e. check_error
                          (if task_type = ''text'' then get_task k else get_image_task k)
                          = Some e \<and>
                       out = Inl (Raised e)))) \<or>
            ((\<forall>k. int k * poll_interval < timeout \<longrightarrow>
                   pending str_upper
                     (if task_type = ''text'' then get_task k else get_image_task k)) \<and>
             out = Inl TimeoutError))"
proof -
  let ?get = "if task_type = ''text'' then get_task else get_image_task"
  have g: "(if task_type = ''text'' then get_task k else get_image_task k) = ?get k" for k
    by simp
  have "\<forall>j<(0::nat). pending str_upper (?get j)" by simp
  from poll_loop_outcome [OF assms this, of timeout]
  show ?thesis unfolding poll_until_done_def g by simp
qed

text \<open>
  Three runs with the defaults (timeout 300, interval 10): success at the third check,
  a failure at the second, and no terminal status within 30 seconds.
\<close>

lemma poll_example_success:
  "poll_until_done ascii_upper
     (\<lambda>k. Inr (PDict [(''status'', PStr (if k < 2 then ''IN_PROGRESS'' else ''succeeded''))]))
     (\<lambda>k. Inl KeyError) 300 10 ''text''
   = Some (Inr (PDict [(''status'', PStr ''succeeded'')]))"
  by (simp add: poll_until_done_def poll_loop.simps status_of_def dict_get_def ascii_upper_def
      upper_char_def)

lemma poll_example_failure:
  "poll_until_done ascii_upper
     (\<lambda>k. Inr (PDict (if k < 1 then [(''status'', PStr ''PENDING'')]
                      else [(''status'', PStr ''FAILED''), (''message'', PStr ''no mesh'')])))
     (\<lambda>k. Inl KeyError) 300 10 ''text''
   = Some (Inl (RuntimeError (PStr ''no mesh'')))"
  by (simp add: poll_until_done_def poll_loop.simps status_of_def dict_get_def ascii_upper_def
      upper_char_def error_msg_of_def truthy_def)

lemma poll_example_timeout:
  "poll_until_done ascii_upper (\<lambda>k. Inr (PDict [(''status'', PStr ''PENDING'')]))
     (\<lambda>k. Inl KeyError) 30 10 ''text''
   = Some (Inl TimeoutError)"
  by (simp add: poll_until_done_def poll_loop.simps status_of_def dict_get_def ascii_upper_def
      upper_char_def)

text \<open>
  The first of these runs, from the theorem alone: checks 0 and 1 are pending and
  check 2, made at 20 seconds, reads \<open>SUCCEEDED\<close> in upper case, so the call returns
  the response of check 2.
\<close>

theorem c8_poll_outcomes_witness:
  "poll_until_done ascii_upper
     (\<lambda>k. Inr (PDict [(''status'', PStr (if k < 2 then ''IN_PROGRESS'' else ''succeeded''))]))
     (\<lambda>k. Inl KeyError) 300 10 ''text''
   = Some (Inr (PDict [(''status'', PStr ''succeeded'')]))"
proof -
  let ?g = "\<lambda>k::nat. (Inr (PDict [(''status'',
              PStr (if k < 2 then ''IN_PROGRESS'' else ''succeeded''))]) :: py_error + pyval)"
  have pend: "pending ascii_upper (?g j) \<longleftrightarrow> j < 2" for j
    by (simp add: pending_def status_text_def ascii_upper_def upper_char_def)
  have succ: "reports ascii_upper (?g k) ''SUCCEEDED'' \<longleftrightarrow> \<not> k < 2" for k
    by (simp add: reports_def status_text_def ascii_upper_def upper_char_def)
  have fail: "\<not> reports ascii_upper (?g k) ''FAILED''"
    "\<not> reports ascii_upper (?g k) ''EXPIRED''" for k
    by (auto simp: reports_def status_text_def ascii_upper_def upper_char_def)
  have err: "check_error (?g k) = None" for k
    by (simp add: check_error_def status_text_def)
  have p: "(0::int) < 10" by simp
  from c8_poll_outcomes [of 10 ascii_upper ?g "\<lambda>k. Inl KeyError" 300 "''text''", OF p]
  obtain out where out:
    "poll_until_done ascii_upper ?g (\<lambda>k. Inl KeyError) 300 10 ''text'' = Some out"
    and cases: "(\<exists>k. int k * 10 < 300 \<and> (\<forall>j<k. pending ascii_upper (?g j)) \<and>
                  ((\<exists>r. ?g k = Inr r \<and> reports ascii_upper (?g k) ''SUCCEEDED'' \<and> out = Inr r) \<or>
                   (\<exists>r. ?g k = Inr r \<and>
                        (reports ascii_upper (?g k) ''FAILED'' \<or>
                         reports ascii_upper (?g k) ''EXPIRED'') \<and>
                        out = Inl (RuntimeError (error_msg_of r))) \<or>
                   (\<exists>e. check_error (?g k) = Some e \<and> out = Inl (Raised e)))) \<or>
               ((\<forall>k. int k * 10 < 300 \<longrightarrow> pending ascii_upper (?g k)) \<and> out = Inl TimeoutError)"
    by auto
  from cases have "out = Inr (PDict [(''status'', PStr ''succeeded'')])"
  proof (elim disjE exE conjE)
    fix k r
    assume before: "\<forall>j<k. pending ascii_upper (?g j)"
      and r: "?g k = Inr r" and s: "reports ascii_upper (?g k) ''SUCCEEDED''" and o: "out = Inr r"
    from s have "\<not> k < 2" using succ [of k] by blast
    with r o show ?thesis by simp
  next
    fix k r
    assume "reports ascii_upper (?g k) ''FAILED''"
    with fail(1) [of k] show ?thesis by blast
  next
    fix k r
    assume "reports ascii_upper (?g k) ''EXPIRED''"
    with fail(2) [of k] show ?thesis by blast
  next
    fix k e
    assume "check_error (?g k) = Some e"
    with err [of k] show ?thesis by simp
  next
    assume all: "\<forall>k. int k * 10 < 300 \<longrightarrow> pending ascii_upper (?g k)"
    have "int 2 * 10 < 300" by simp
    with all have "pending ascii_upper (?g 2)" by blast
    with pend [of 2] show ?thesis by simp
  qed
  with out show ?thesis by simp
qed

text \<open>
  C8 as stated fails: there are outcomes other than the three. Below, the second status
  request answers with an HTTP error status, so \<open>raise_for_status\<close> raises and the
  exception leaves \<open>poll_until_done\<close>; and a response whose status is \<open>null\<close> makes
  \<open>upper\<close> raise \<open>AttributeError\<close>. Neither call returns a result, raises
  \<open>RuntimeError\<close> or raises \<open>TimeoutError\<close>.
\<close>

theorem c8_counterexample:
  "poll_until_done ascii_upper
     (\<lambda>k. if k < 1 then Inr (PDict [(''status'', PStr ''PENDING'')]) else Inl HTTPStatusError)
     (\<lambda>k. Inl KeyError) 300 10 ''text''
     = Some (Inl (Raised HTTPStatusError)) \<and>
   poll_until_done ascii_upper (\<lambda>k. Inr (PDict [(''status'', PNone)]))
     (\<lambda>k. Inl KeyError) 300 10 ''text''
     = Some (Inl (Raised AttributeError))"
  by (simp add: poll_until_done_def poll_loop.simps status_of_def dict_get_def ascii_upper_def
      upper_char_def)

text \<open>
  Why the interval has to be positive: with a poll interval of zero and a task that
  stays pending, \<open>elapsed\<close> never advances and the loop never returns.
\<close>

lemma poll_loop_zero_interval:
  assumes pend: "\<forall>k. pending str_upper (get_fn k)"
    and t: "0 < timeout"
  shows "poll_until_done str_upper get_fn get_fn timeout 0 task_type = None"
proof -
  have never: "u = str_upper \<and> g = get_fn \<and> tm = timeout \<and> p = 0 \<and> e = 0 \<longrightarrow> False"
    if "poll_loop u g tm p j e = Some y" for u g tm p j e y
  proof (rule poll_loop.raw_induct
      [where P = "\<lambda>u g tm p j e y.
                    u = str_upper \<and> g = get_fn \<and> tm = timeout \<and> p = 0 \<and> e = 0 \<longrightarrow> False",
        OF _ that], rule impI)
    fix f :: "(string \<Rightarrow> string) \<Rightarrow> (nat \<Rightarrow> py_error + pyval) \<Rightarrow> int \<Rightarrow> int \<Rightarrow> nat \<Rightarrow> int
                \<Rightarrow> (poll_exn + pyval) option"
    fix u' g' tm' p' j' e' y'
    assume IH: "\<And>u g tm p j e y. f u g tm p j e = Some y \<Longrightarrow>
                  u = str_upper \<and> g = get_fn \<and> tm = timeout \<and> p = 0 \<and> e = 0 \<longrightarrow> False"
      and body: "(if e' < tm' then
        (case g' j' of
           Inl e \<Rightarrow> Some (Inl (Raised e))
         | Inr result \<Rightarrow>
             (case status_of u' result of
                Inl e \<Rightarrow> Some (Inl (Raised e))
              | Inr status \<Rightarrow>
                  if status = ''SUCCEEDED'' then Some (Inr result)
                  else if status = ''FAILED'' \<or> status = ''EXPIRED''
                  then Some (Inl (RuntimeError (error_msg_of result)))
                  else f u' g' tm' p' (Suc j') (e' + p')))
      else Some (Inl TimeoutError)) = Some y'"
      and a: "u' = str_upper \<and> g' = get_fn \<and> tm' = timeout \<and> p' = 0 \<and> e' = 0"
    from pend have "pending str_upper (get_fn j')" by blast
    then obtain r s where r: "get_fn j' = Inr r" "status_of str_upper r = Inr s"
      "s \<noteq> ''SUCCEEDED''" "s \<noteq> ''FAILED''" "s \<noteq> ''EXPIRED''"
      by (auto simp: pending_def status_of_text split: sum.splits option.splits)
    from body a r t have "f str_upper get_fn timeout 0 (Suc j') 0 = Some y'" by simp
    from IH [OF this] show False by simp
  qed
  have "poll_loop str_upper get_fn timeout 0 0 0 = None"
  proof (cases "poll_loop str_upper get_fn timeout 0 0 0")
    case None
    then show ?thesis .
  next
    case (Some y)
    from never [OF this] show ?thesis by simp
  qed
  then show ?thesis by (simp add: poll_until_done_def)
qed

end
